theory Spec2Isabelle
  imports Complex_Main
begin

section \<open>Data model (types.ts)\<close>

text \<open>
  JavaScript numbers are modelled as exact reals. Frame indices in the application are
  integers far below \<open>2^53\<close> and the arithmetic on them (sums, products by 30, comparisons)
  is exact on doubles in that range, so the real model agrees with the code there.
  \<open>Math.round x\<close> is \<open>\<lfloor>x + 1/2\<rfloor>\<close>, which is HOL's \<open>round\<close>.
  An optional field (\<open>f?: T\<close>) is an \<open>option\<close>; \<open>None\<close> is \<open>undefined\<close>.
\<close>

datatype AssetType = IMAGE | VIDEO | AUDIO

datatype PlaybackMode = ASSET | TIMELINE

text \<open>\<open>TrackType.AUDIO\<close> is written \<open>AUDIO_TRACK\<close>: the enum \<open>AssetType\<close> has an \<open>AUDIO\<close> too.\<close>

datatype TrackType = VIDEO_MAIN | OVERLAY | AUDIO_TRACK

record AssetMetadata =
  md_width :: "real option"
  md_height :: "real option"
  md_duration :: "real option"

text \<open>
  Of \<open>Asset\<close>, the fields \<open>base64\<close>, \<open>parentId\<close>, \<open>version\<close> and \<open>category\<close> are read by
  none of the functions below and are left out.
\<close>

record Asset =
  asset_id :: string
  asset_type :: AssetType
  asset_url :: string
  asset_name :: string
  mimeType :: string
  asset_metadata :: "AssetMetadata option"

record SegmentMetadata =
  overlayX :: "real option"
  overlayY :: "real option"
  maskData :: "string option"

record TimelineSegment =
  seg_id :: string
  assetId :: string
  trackId :: TrackType
  startFrame :: real
  endFrame :: real
  duration :: real
  label :: string
  isAiGenerated :: bool
  continuityScore :: "real option"
  linkedSegmentId :: "string option"
  assetUrl :: "string option"
  assetType :: "AssetType option"
  metadata :: "SegmentMetadata option"

text \<open>
  \<open>Partial<TimelineSegment>\<close>: \<open>None\<close> is an absent key. (A key that is present with the
  value \<open>undefined\<close> is not modelled; the only caller passes \<open>{ startFrame: n }\<close>.)
\<close>

record SegmentUpdates =
  u_id :: "string option"
  u_assetId :: "string option"
  u_trackId :: "TrackType option"
  u_startFrame :: "real option"
  u_endFrame :: "real option"
  u_duration :: "real option"
  u_label :: "string option"
  u_isAiGenerated :: "bool option"
  u_continuityScore :: "real option"
  u_linkedSegmentId :: "string option"
  u_assetUrl :: "string option"
  u_assetType :: "AssetType option"
  u_metadata :: "SegmentMetadata option"

section \<open>Segment store (App: segment handlers)\<close>

text \<open>The initial value of the \<open>segments\<close> state.\<close>

definition initialSegments :: "TimelineSegment list" where
  "initialSegments =
    [\<lparr>seg_id = ''1'', assetId = ''start'', trackId = VIDEO_MAIN, startFrame = 0, endFrame = 120,
      duration = 4, label = ''Intro Hook'', isAiGenerated = False, continuityScore = None,
      linkedSegmentId = None,
      assetUrl = Some ''https://commondatastorage.googleapis.com/gtv-videos-bucket/sample/ForBiggerJoyrides.mp4'',
      assetType = None, metadata = None\<rparr>,
     \<lparr>seg_id = ''2'', assetId = ''mid'', trackId = VIDEO_MAIN, startFrame = 121, endFrame = 240,
      duration = 4, label = ''Value Prop'', isAiGenerated = True, continuityScore = None,
      linkedSegmentId = None,
      assetUrl = Some ''https://commondatastorage.googleapis.com/gtv-videos-bucket/sample/ForBiggerBlazes.mp4'',
      assetType = None, metadata = None\<rparr>]"

text \<open>\<open>{ ...s, ...updates }\<close>: every key present in \<open>updates\<close> replaces the field of \<open>s\<close>.\<close>

definition mergeUpdates :: "TimelineSegment \<Rightarrow> SegmentUpdates \<Rightarrow> TimelineSegment" where
  "mergeUpdates s u =
    \<lparr>seg_id = (case u_id u of None \<Rightarrow> seg_id s | Some v \<Rightarrow> v),
     assetId = (case u_assetId u of None \<Rightarrow> assetId s | Some v \<Rightarrow> v),
     trackId = (case u_trackId u of None \<Rightarrow> trackId s | Some v \<Rightarrow> v),
     startFrame = (case u_startFrame u of None \<Rightarrow> startFrame s | Some v \<Rightarrow> v),
     endFrame = (case u_endFrame u of None \<Rightarrow> endFrame s | Some v \<Rightarrow> v),
     duration = (case u_duration u of None \<Rightarrow> duration s | Some v \<Rightarrow> v),
     label = (case u_label u of None \<Rightarrow> label s | Some v \<Rightarrow> v),
     isAiGenerated = (case u_isAiGenerated u of None \<Rightarrow> isAiGenerated s | Some v \<Rightarrow> v),
     continuityScore = (case u_continuityScore u of None \<Rightarrow> continuityScore s | Some v \<Rightarrow> Some v),
     linkedSegmentId = (case u_linkedSegmentId u of None \<Rightarrow> linkedSegmentId s | Some v \<Rightarrow> Some v),
     assetUrl = (case u_assetUrl u of None \<Rightarrow> assetUrl s | Some v \<Rightarrow> Some v),
     assetType = (case u_assetType u of None \<Rightarrow> assetType s | Some v \<Rightarrow> Some v),
     metadata = (case u_metadata u of None \<Rightarrow> metadata s | Some v \<Rightarrow> Some v)\<rparr>"

text \<open>The update \<open>{ startFrame: x }\<close>.\<close>

definition moveTo :: "real \<Rightarrow> SegmentUpdates" where
  "moveTo x =
    \<lparr>u_id = None, u_assetId = None, u_trackId = None, u_startFrame = Some x, u_endFrame = None,
     u_duration = None, u_label = None, u_isAiGenerated = None, u_continuityScore = None,
     u_linkedSegmentId = None, u_assetUrl = None, u_assetType = None, u_metadata = None\<rparr>"

text \<open>
  \<open>handleUpdateSegment\<close>: \<open>prev.map(s => ...)\<close>. A segment whose id is \<open>id\<close> is merged with
  the updates and, when \<open>startFrame\<close> is among them, gets
  \<open>endFrame = updates.startFrame + s.duration * 30\<close> (the duration before the merge, no
  rounding). Any other segment is moved to the new start when the first segment with that id
  (\<open>prev.find\<close>) names it as its \<open>linkedSegmentId\<close>.
\<close>

definition handleUpdateSegment ::
  "string \<Rightarrow> SegmentUpdates \<Rightarrow> TimelineSegment list \<Rightarrow> TimelineSegment list" where
  "handleUpdateSegment i updates prev =
    map (\<lambda>s.
      if seg_id s = i then
        (let updated = mergeUpdates s updates in
         case u_startFrame updates of
           Some x \<Rightarrow> updated\<lparr>endFrame := x + duration s * 30\<rparr>
         | None \<Rightarrow> updated)
      else
        (case find (\<lambda>p. seg_id p = i) prev of
           None \<Rightarrow> s
         | Some movedSeg \<Rightarrow>
             (case u_startFrame updates of
                None \<Rightarrow> s
              | Some newStart \<Rightarrow>
                  if linkedSegmentId movedSeg = Some (seg_id s)
                  then s\<lparr>startFrame := newStart, endFrame := newStart + duration s * 30\<rparr>
                  else s))) prev"

text \<open>A sequence of \<open>update(id, {startFrame: x})\<close> calls, applied from left to right.\<close>

fun updateAll :: "(string \<times> real) list \<Rightarrow> TimelineSegment list \<Rightarrow> TimelineSegment list" where
  "updateAll [] segs = segs"
| "updateAll ((i, x) # calls) segs = updateAll calls (handleUpdateSegment i (moveTo x) segs)"

text \<open>\<open>handleUnlink\<close>: clears the link of the segment and of every segment that links to it.\<close>

definition handleUnlink :: "string \<Rightarrow> TimelineSegment list \<Rightarrow> TimelineSegment list" where
  "handleUnlink i prev =
    map (\<lambda>s. if seg_id s = i \<or> linkedSegmentId s = Some i
              then s\<lparr>linkedSegmentId := None\<rparr> else s) prev"

text \<open>\<open>handleDeleteSegment\<close>: \<open>prev.filter(s => s.id !== id)\<close>, and nothing else.\<close>

definition handleDeleteSegment :: "string \<Rightarrow> TimelineSegment list \<Rightarrow> TimelineSegment list" where
  "handleDeleteSegment i prev = filter (\<lambda>s. seg_id s \<noteq> i) prev"

text \<open>
  \<open>handleDropAssetOnTimeline\<close>. The fresh id of \<open>crypto.randomUUID()\<close> is the parameter
  \<open>segId\<close>. \<open>asset.metadata?.duration || 4\<close> is 4 when the duration is absent or zero.
\<close>

definition assetDurationOr :: "Asset \<Rightarrow> real \<Rightarrow> real" where
  "assetDurationOr asset dflt =
    (case asset_metadata asset of
       None \<Rightarrow> dflt
     | Some m \<Rightarrow> (case md_duration m of None \<Rightarrow> dflt | Some d \<Rightarrow> if d = 0 then dflt else d))"

definition handleDropAssetOnTimeline ::
  "string \<Rightarrow> Asset \<Rightarrow> TrackType \<Rightarrow> real \<Rightarrow> TimelineSegment list \<Rightarrow> TimelineSegment list" where
  "handleDropAssetOnTimeline segId asset track time prev =
    (let startFrame' = of_int \<lfloor>time * 30\<rfloor>;
         duration' = assetDurationOr asset 4;
         lengthInFrames = of_int \<lceil>duration' * 30\<rceil>;
         base =
           \<lparr>seg_id = segId, assetId = asset_id asset,
            trackId = (if asset_type asset = VIDEO then VIDEO_MAIN else track),
            startFrame = startFrame', endFrame = startFrame' + lengthInFrames,
            duration = duration', label = asset_name asset, isAiGenerated = False,
            continuityScore = None,
            linkedSegmentId = (if asset_type asset = VIDEO then Some (''audio-'' @ segId) else None),
            assetUrl = Some (asset_url asset), assetType = Some (asset_type asset),
            metadata = None\<rparr>;
         split =
           (if asset_type asset = VIDEO then
              [\<lparr>seg_id = ''audio-'' @ segId, assetId = asset_id asset, trackId = AUDIO_TRACK,
                startFrame = startFrame', endFrame = startFrame' + lengthInFrames,
                duration = duration', label = ''Audio: '' @ asset_name asset,
                isAiGenerated = False, continuityScore = None, linkedSegmentId = Some segId,
                assetUrl = Some (asset_url asset), assetType = None, metadata = None\<rparr>]
            else [])
     in prev @ base # split)"

section \<open>Transport clock (App: master clock)\<close>

text \<open>
  \<open>contentDuration\<close>: 10 for an empty store, else \<open>Math.max(...endFrames) / 30\<close>.
\<close>

definition contentDuration :: "TimelineSegment list \<Rightarrow> real" where
  "contentDuration segs =
    (case segs of
       [] \<Rightarrow> 10
     | s # rest \<Rightarrow> fold (\<lambda>t m. max m (endFrame t)) rest (endFrame s) / 30)"

record ClockState =
  playbackMode :: PlaybackMode
  timelineTime :: real
  isTimelinePlaying :: bool
  lastTick :: real
  segments :: "TimelineSegment list"

definition initialClock :: ClockState where
  "initialClock =
    \<lparr>playbackMode = TIMELINE, timelineTime = 0, isTimelinePlaying = False, lastTick = 0,
     segments = initialSegments\<rparr>"

text \<open>
  One run of \<open>loop(timestamp)\<close>. \<open>!lastTickRef.current\<close> holds when the reference is 0.
\<close>

definition tick :: "real \<Rightarrow> ClockState \<Rightarrow> ClockState" where
  "tick timestamp st =
    (let last = (if lastTick st = 0 then timestamp else lastTick st);
         delta = (timestamp - last) / 1000;
         st1 = st\<lparr>lastTick := timestamp\<rparr>
     in if isTimelinePlaying st then
          (let nextTime = timelineTime st + delta in
           if nextTime \<ge> contentDuration (segments st)
           then st1\<lparr>isTimelinePlaying := False, timelineTime := contentDuration (segments st)\<rparr>
           else st1\<lparr>timelineTime := nextTime\<rparr>)
        else st1)"

definition toggleTimelinePlay :: "ClockState \<Rightarrow> ClockState" where
  "toggleTimelinePlay st =
    (if timelineTime st \<ge> contentDuration (segments st) then
       st\<lparr>timelineTime := 0, playbackMode := TIMELINE, isTimelinePlaying := True, lastTick := 0\<rparr>
     else if playbackMode st \<noteq> TIMELINE then
       st\<lparr>playbackMode := TIMELINE, isTimelinePlaying := True, lastTick := 0\<rparr>
     else st\<lparr>isTimelinePlaying := \<not> isTimelinePlaying st, lastTick := 0\<rparr>)"

definition handleSeek :: "real \<Rightarrow> ClockState \<Rightarrow> ClockState" where
  "handleSeek t st =
    (let clampedTime = min (max 0 t) (contentDuration (segments st))
     in st\<lparr>timelineTime := clampedTime, playbackMode := TIMELINE\<rparr>)"

text \<open>A segment handler run on the store held by the clock's component.\<close>

definition onSegments ::
  "(TimelineSegment list \<Rightarrow> TimelineSegment list) \<Rightarrow> ClockState \<Rightarrow> ClockState" where
  "onSegments f st = st\<lparr>segments := f (segments st)\<rparr>"

section \<open>Playback resolver (PlayerPanel: timeline resolution effect)\<close>

text \<open>
  The predicate of the three \<open>segments.find\<close> calls:
  \<open>s.trackId === track && currentFrame >= s.startFrame && currentFrame < s.endFrame\<close>.
\<close>

definition activeOn :: "TrackType \<Rightarrow> real \<Rightarrow> TimelineSegment \<Rightarrow> bool" where
  "activeOn track currentFrame s \<longleftrightarrow>
    trackId s = track \<and> currentFrame \<ge> startFrame s \<and> currentFrame < endFrame s"

definition resolveTrack :: "TrackType \<Rightarrow> TimelineSegment list \<Rightarrow> real \<Rightarrow> TimelineSegment option" where
  "resolveTrack track segs currentFrame = find (activeOn track currentFrame) segs"

record CompositionState =
  activeVideoSeg :: "TimelineSegment option"
  activeMainImageSeg :: "TimelineSegment option"
  activeOverlaySeg :: "TimelineSegment option"
  activeAudioSeg :: "TimelineSegment option"

text \<open>
  The state part of the effect (the synchronisation of the media elements is not modelled).
  The main-track match \<open>mainSeg\<close> is shown as a video or as an image by its \<open>assetType\<close>.
\<close>

definition resolveTimeline ::
  "PlaybackMode \<Rightarrow> real \<Rightarrow> TimelineSegment list \<Rightarrow> CompositionState \<Rightarrow> CompositionState" where
  "resolveTimeline mode time segs st =
    (if mode = TIMELINE then
       (let currentFrame = time * 30;
            mainSeg = resolveTrack VIDEO_MAIN segs currentFrame;
            mainType = (case mainSeg of None \<Rightarrow> None | Some m \<Rightarrow> assetType m);
            ovl = resolveTrack OVERLAY segs currentFrame;
            aud = resolveTrack AUDIO_TRACK segs currentFrame
        in \<lparr>activeVideoSeg = (if mainType = Some VIDEO then mainSeg else None),
            activeMainImageSeg =
              (if mainType = Some VIDEO then None
               else if mainType = Some IMAGE then mainSeg else None),
            activeOverlaySeg = ovl,
            activeAudioSeg = aud\<rparr>)
     else st)"

section \<open>Properties of segments and sample stores\<close>

text \<open>The frame invariant of the specification, with \<open>Math.round\<close>.\<close>

definition frameInvariant :: "TimelineSegment \<Rightarrow> bool" where
  "frameInvariant s \<longleftrightarrow> endFrame s = startFrame s + of_int (round (duration s * 30))"

text \<open>What the update handler establishes: no rounding, on a whole number of frames.\<close>

definition exactFrames :: "TimelineSegment \<Rightarrow> bool" where
  "exactFrames s \<longleftrightarrow> endFrame s = startFrame s + duration s * 30 \<and> duration s * 30 \<in> \<int>"

definition sampleVideo :: Asset where
  "sampleVideo =
    \<lparr>asset_id = ''clip'', asset_type = VIDEO, asset_url = ''blob:clip'', asset_name = ''Clip'',
     mimeType = ''video/mp4'', asset_metadata = None\<rparr>"

text \<open>A video asset dropped on the empty timeline at time 0: a video segment and its audio
  segment, each naming the other as its link.\<close>

definition droppedPair :: "TimelineSegment list" where
  "droppedPair = handleDropAssetOnTimeline ''v'' sampleVideo VIDEO_MAIN 0 []"

text \<open>A pair as \<open>handleDirectorApprove\<close> creates it: the audio segment links to the video
  segment, the video segment has no link.\<close>

definition directorPair :: "TimelineSegment list" where
  "directorPair =
    [\<lparr>seg_id = ''V'', assetId = ''vid'', trackId = VIDEO_MAIN, startFrame = 0, endFrame = 150,
      duration = 5, label = ''Sc 1: walk'', isAiGenerated = True, continuityScore = None,
      linkedSegmentId = None, assetUrl = Some ''blob:vid'', assetType = Some VIDEO,
      metadata = None\<rparr>,
     \<lparr>seg_id = ''Au'', assetId = ''aud'', trackId = AUDIO_TRACK, startFrame = 0, endFrame = 150,
      duration = 5, label = ''VO: walk'', isAiGenerated = True, continuityScore = None,
      linkedSegmentId = Some ''V'', assetUrl = Some ''data:aud'', assetType = Some AUDIO,
      metadata = None\<rparr>]"

text \<open>One segment of a frame and a half (0.05 s), placed on frames 0 to 2.\<close>

definition halfFrameStore :: "TimelineSegment list" where
  "halfFrameStore =
    [\<lparr>seg_id = ''h'', assetId = ''a'', trackId = VIDEO_MAIN, startFrame = 0, endFrame = 2,
      duration = 1 / 20, label = ''short'', isAiGenerated = False, continuityScore = None,
      linkedSegmentId = None, assetUrl = Some ''blob:a'', assetType = Some IMAGE,
      metadata = None\<rparr>]"

text \<open>Two overlapping overlay segments, on frames 0 to 150 and 100 to 200.\<close>

definition overlapPair :: "TimelineSegment list" where
  "overlapPair =
    [\<lparr>seg_id = ''first'', assetId = ''a'', trackId = OVERLAY, startFrame = 0, endFrame = 150,
      duration = 5, label = ''Overlay: a'', isAiGenerated = False, continuityScore = None,
      linkedSegmentId = None, assetUrl = Some ''blob:a'', assetType = None,
      metadata = Some \<lparr>overlayX = Some (1/2), overlayY = Some (1/2), maskData = None\<rparr>\<rparr>,
     \<lparr>seg_id = ''second'', assetId = ''b'', trackId = OVERLAY, startFrame = 100, endFrame = 200,
      duration = 10 / 3, label = ''Overlay: b'', isAiGenerated = False, continuityScore = None,
      linkedSegmentId = None, assetUrl = Some ''blob:b'', assetType = None,
      metadata = Some \<lparr>overlayX = Some (1/4), overlayY = Some (1/4), maskData = None\<rparr>\<rparr>]"

text \<open>
  The words of the specification: \<open>s\<close> is the first segment in store order that is on the
  track and whose half-open interval \<open>[startFrame, endFrame)\<close> contains the frame.
\<close>

definition firstCovering :: "TrackType \<Rightarrow> TimelineSegment list \<Rightarrow> real \<Rightarrow> TimelineSegment \<Rightarrow> bool" where
  "firstCovering track segs frame s \<longleftrightarrow>
    (\<exists>i<length segs. segs ! i = s \<and>
       trackId s = track \<and> startFrame s \<le> frame \<and> frame < endFrame s \<and>
       (\<forall>j<i. \<not> (trackId (segs ! j) = track \<and> startFrame (segs ! j) \<le> frame \<and>
                  frame < endFrame (segs ! j))))"

text \<open>Two overlapping main-track segments without \<open>assetType\<close>, as the initial segments are.\<close>

definition typelessOverlap :: "TimelineSegment list" where
  "typelessOverlap =
    [\<lparr>seg_id = ''first'', assetId = ''a'', trackId = VIDEO_MAIN, startFrame = 0, endFrame = 150,
      duration = 5, label = ''First'', isAiGenerated = False, continuityScore = None,
      linkedSegmentId = None, assetUrl = Some ''https://media.example/a.mp4'', assetType = None,
      metadata = None\<rparr>,
     \<lparr>seg_id = ''second'', assetId = ''b'', trackId = VIDEO_MAIN, startFrame = 100, endFrame = 200,
      duration = 10 / 3, label = ''Second'', isAiGenerated = False, continuityScore = None,
      linkedSegmentId = None, assetUrl = Some ''https://media.example/b.mp4'', assetType = None,
      metadata = None\<rparr>]"

definition emptyComposition :: CompositionState where
  "emptyComposition =
    \<lparr>activeVideoSeg = None, activeMainImageSeg = None, activeOverlaySeg = None,
     activeAudioSeg = None\<rparr>"


section \<open>Render pipeline (services/ffmpegService.ts)\<close>

subsection \<open>Strings\<close>

text \<open>
  The decimal digits of a natural number and of an integer, as a template literal prints an
  integral number (below \<open>10^21\<close>, where JavaScript switches to the exponent notation).
\<close>

definition digitChar :: "nat \<Rightarrow> char" where
  "digitChar d =
    (if d = 0 then CHR ''0'' else if d = 1 then CHR ''1'' else if d = 2 then CHR ''2''
     else if d = 3 then CHR ''3'' else if d = 4 then CHR ''4'' else if d = 5 then CHR ''5''
     else if d = 6 then CHR ''6'' else if d = 7 then CHR ''7'' else if d = 8 then CHR ''8''
     else CHR ''9'')"

fun natToString :: "nat \<Rightarrow> string" where
  "natToString n =
    (if n < 10 then [digitChar n] else natToString (n div 10) @ [digitChar (n mod 10)])"

declare natToString.simps [simp del]

definition intToString :: "int \<Rightarrow> string" where
  "intToString k = (if k < 0 then CHR ''-'' # natToString (nat (- k)) else natToString (nat k))"

text \<open>\<open>parts.join(sep)\<close>.\<close>

fun join :: "string \<Rightarrow> string list \<Rightarrow> string" where
  "join sep [] = []"
| "join sep [x] = x"
| "join sep (x # y # ys) = x @ sep @ join sep (y # ys)"

text \<open>A value used as a condition: a string is truthy when it is defined and not empty.\<close>

definition truthy :: "string option \<Rightarrow> bool" where
  "truthy u = (case u of None \<Rightarrow> False | Some x \<Rightarrow> x \<noteq> [])"

subsection \<open>The engine, the outcome and the trace of a run\<close>

text \<open>
  \<open>renderTimeline\<close> awaits its calls one after the other, so a run is a sequence of calls.
  What the world decides is a parameter of the run: whether the engine is loaded already and
  whether loading succeeds, and for every call that can throw (a fetch, a write, an exec or a
  read of the engine) whether it does. Every such call is made at most once per call site
  and loop index, so a predicate on the index describes any behaviour of the world.
  \<open>deleteFile\<close> is always called inside \<open>try { } catch { }\<close>: its outcome changes nothing.
  \<open>numberToString\<close> is \<open>String(x)\<close> on a number, and \<open>objectUrl\<close> the result of
  \<open>URL.createObjectURL\<close>. \<open>inheritedMember key\<close> is the text a template literal prints for
  the member of \<open>Object.prototype\<close> named \<open>key\<close> (\<open>constructor\<close>, \<open>toString\<close>, ...), and
  \<open>None\<close> when \<open>Object.prototype\<close> has no member of that name.
\<close>

record environment =
  ffmpegLoaded :: bool
  loadSucceeds :: bool
  fetchVideoOk :: "nat \<Rightarrow> bool"
  writeInputOk :: "nat \<Rightarrow> bool"
  execClipOk :: "nat \<Rightarrow> bool"
  readClipOk :: bool
  writeVideoOnlyOk :: bool
  writeConcatOk :: bool
  execConcatOk :: bool
  fetchAudioOk :: "nat \<Rightarrow> bool"
  writeAudioOk :: "nat \<Rightarrow> bool"
  execMixOk :: bool
  readOutputOk :: bool
  numberToString :: "real \<Rightarrow> string"
  objectUrl :: string
  inheritedMember :: "string \<Rightarrow> string option"

text \<open>
  \<open>Error msg\<close> is \<open>throw new Error(msg)\<close> of \<open>renderTimeline\<close> itself; \<open>Thrown call\<close> is an
  exception of the named external call that no \<open>catch\<close> handles.
\<close>

datatype error = Error string | Thrown string

datatype payload = FetchedFrom "string option" | ContentOf string | Text string

datatype event =
    Progress real string
  | Load
  | FetchFile "string option"
  | WriteFile string payload
  | Exec "string list"
  | ReadFile string
  | DeleteFile string
  | ConsoleError string
  | ConsoleWarn string

text \<open>The fractions passed to the progress callback, in order.\<close>

fun fractions :: "event list \<Rightarrow> real list" where
  "fractions [] = []"
| "fractions (Progress p stage # evs) = p # fractions evs"
| "fractions (ev # evs) = fractions evs"

text \<open>The work on a segment's media: a fetch or a call of the engine on a file.\<close>

fun segmentWork :: "event \<Rightarrow> bool" where
  "segmentWork (FetchFile u) = True"
| "segmentWork (WriteFile name d) = True"
| "segmentWork (Exec args) = True"
| "segmentWork (ReadFile name) = True"
| "segmentWork (DeleteFile name) = True"
| "segmentWork ev = False"

subsection \<open>getExtension\<close>

text \<open>
  \<open>getExtension\<close>: the lookup of \<open>mimeType\<close> (the empty string when it is undefined) in
  the table of the eight known MIME types, with \<open>bin\<close> for a falsy result. The table is a
  plain object: a key that is none of its eight own properties but names a member inherited
  from \<open>Object.prototype\<close> yields that member, which is truthy, so it is returned in place of
  \<open>bin\<close> and printed into the file name.
\<close>

definition getExtension :: "environment \<Rightarrow> string option \<Rightarrow> string" where
  "getExtension E mime =
    (let key = (case mime of None \<Rightarrow> [] | Some m \<Rightarrow> m) in
     if key = ''image/png'' then ''png''
     else if key = ''image/jpeg'' then ''jpg''
     else if key = ''image/webp'' then ''webp''
     else if key = ''video/mp4'' then ''mp4''
     else if key = ''video/webm'' then ''webm''
     else if key = ''audio/wav'' then ''wav''
     else if key = ''audio/mpeg'' then ''mp3''
     else if key = ''audio/aac'' then ''aac''
     else (case inheritedMember E key of Some member \<Rightarrow> member | None \<Rightarrow> ''bin''))"

subsection \<open>loadFFmpeg\<close>

definition loadFFmpeg :: "environment \<Rightarrow> event list \<times> (error + unit)" where
  "loadFFmpeg E =
    (if ffmpegLoaded E then ([], Inr ())
     else ([Progress 0.02 ''Downloading FFmpeg WASM core...'', Load],
           if loadSucceeds E then Inr () else Inl (Thrown ''ffmpeg.load'')))"

subsection \<open>The segments of the export\<close>

text \<open>\<open>Array.prototype.sort\<close> is stable, as the insertion sort \<open>sort_key\<close> is.\<close>

definition videoSegmentsOf :: "TimelineSegment list \<Rightarrow> TimelineSegment list" where
  "videoSegmentsOf segs =
    sort_key startFrame (filter (\<lambda>s. trackId s = VIDEO_MAIN \<and> truthy (assetUrl s)) segs)"

definition audioSegmentsOf :: "TimelineSegment list \<Rightarrow> TimelineSegment list" where
  "audioSegmentsOf segs =
    sort_key startFrame (filter (\<lambda>s. trackId s = AUDIO_TRACK \<and> truthy (assetUrl s)) segs)"

text \<open>\<open>asset?.mimeType || fallback\<close> for \<open>asset = assets.find(a => a.id === seg.assetId)\<close>.\<close>

definition mimeTypeOr :: "Asset list \<Rightarrow> TimelineSegment \<Rightarrow> string \<Rightarrow> string" where
  "mimeTypeOr assets seg fallback =
    (case find (\<lambda>a. asset_id a = assetId seg) assets of
       None \<Rightarrow> fallback
     | Some a \<Rightarrow> if mimeType a = [] then fallback else mimeType a)"

subsection \<open>Step 1: one clip per video segment\<close>

definition scaleFilter :: string where
  "scaleFilter = ''scale=1280:720:force_original_aspect_ratio=decrease,pad=1280:720:(ow-iw)/2:(oh-ih)/2,format=yuv420p''"

definition clipName :: "nat \<Rightarrow> string" where
  "clipName i = ''clip_'' @ natToString i @ ''.mp4''"

definition inputNameOf ::
  "environment \<Rightarrow> Asset list \<Rightarrow> nat \<Rightarrow> TimelineSegment \<Rightarrow> string" where
  "inputNameOf E assets i seg =
    ''input_'' @ natToString i @ ''.'' @
      getExtension E (Some (mimeTypeOr assets seg
        (if assetType seg = Some IMAGE then ''image/png'' else ''video/mp4'')))"

definition encodeArgs :: "environment \<Rightarrow> string \<Rightarrow> string \<Rightarrow> TimelineSegment \<Rightarrow> string list" where
  "encodeArgs E inputName outputName seg =
    (if assetType seg = Some IMAGE then
       [''-loop'', ''1'', ''-i'', inputName, ''-t'', numberToString E (max 1 (duration seg)),
        ''-vf'', scaleFilter, ''-r'', ''30'', ''-c:v'', ''libx264'', ''-preset'', ''ultrafast'',
        ''-pix_fmt'', ''yuv420p'', outputName]
     else
       [''-i'', inputName, ''-t'', numberToString E (max 1 (duration seg)),
        ''-vf'', scaleFilter, ''-r'', ''30'', ''-c:v'', ''libx264'', ''-preset'', ''ultrafast'',
        ''-pix_fmt'', ''yuv420p'', ''-an'', outputName])"

definition stepProgress :: "nat \<Rightarrow> nat \<Rightarrow> real" where
  "stepProgress n i = 0.05 + (real i / real n) * 0.55"

definition encodingLabel :: "nat \<Rightarrow> nat \<Rightarrow> TimelineSegment \<Rightarrow> string" where
  "encodingLabel n i seg =
    ''Encoding clip '' @ natToString (i + 1) @ ''/'' @ natToString n @ '': '' @
      [CHR 0x22] @ label seg @ [CHR 0x22]"

definition failedClipLog :: "nat \<Rightarrow> string" where
  "failedClipLog i = ''[FFmpeg] Failed to process clip '' @ natToString i @ '':''"

text \<open>The three awaited calls of the \<open>try\<close> block succeed for the clip of index \<open>i\<close>.\<close>

definition clipOk :: "environment \<Rightarrow> nat \<Rightarrow> bool" where
  "clipOk E i \<longleftrightarrow> fetchVideoOk E i \<and> writeInputOk E i \<and> execClipOk E i"

text \<open>
  One iteration of the loop of step 1, for the segment \<open>seg\<close> of index \<open>i\<close> among \<open>n\<close>: its
  events, and whether \<open>clipNames.push(outputName)\<close> was reached.
\<close>

definition normalizeClip ::
  "environment \<Rightarrow> Asset list \<Rightarrow> nat \<Rightarrow> nat \<Rightarrow> TimelineSegment \<Rightarrow> event list \<times> bool" where
  "normalizeClip E assets n i seg =
    (let inputName = inputNameOf E assets i seg;
         outputName = clipName i;
         fetch = [FetchFile (assetUrl seg)];
         write = [WriteFile inputName (FetchedFrom (assetUrl seg))];
         exec = [Exec (encodeArgs E inputName outputName seg)];
         caught = [ConsoleError (failedClipLog i)];
         attempt =
           (if \<not> fetchVideoOk E i then (fetch @ caught, False)
            else if \<not> writeInputOk E i then (fetch @ write @ caught, False)
            else if \<not> execClipOk E i then (fetch @ write @ exec @ caught, False)
            else (fetch @ write @ exec, True))
     in (Progress (stepProgress n i) (encodingLabel n i seg) # fst attempt
           @ [DeleteFile inputName],
         snd attempt))"

text \<open>The loop of step 1 from index \<open>i\<close> on: the events and the clip names pushed.\<close>

fun normalizeClips ::
  "environment \<Rightarrow> Asset list \<Rightarrow> nat \<Rightarrow> nat \<Rightarrow> TimelineSegment list \<Rightarrow> event list \<times> string list" where
  "normalizeClips E assets n i [] = ([], [])"
| "normalizeClips E assets n i (seg # rest) =
    (let (evs, ok) = normalizeClip E assets n i seg;
         (evs', clipNames) = normalizeClips E assets n (Suc i) rest
     in (evs @ evs', (if ok then [clipName i] else []) @ clipNames))"

subsection \<open>Step 2: concatenation\<close>

definition concatList :: "string list \<Rightarrow> string" where
  "concatList clipNames =
    join [CHR 0x0A] (map (\<lambda>name. ''file '' @ [CHR 0x27] @ name @ [CHR 0x27]) clipNames)"

definition concatArgs :: "string list" where
  "concatArgs = [''-f'', ''concat'', ''-safe'', ''0'', ''-i'', ''concat.txt'', ''-c'', ''copy'',
                 ''video_only.mp4'']"

definition concatClips :: "environment \<Rightarrow> string list \<Rightarrow> event list \<times> (error + unit)" where
  "concatClips E clipNames =
    (let progress = [Progress 0.65
           (''Concatenating '' @ natToString (length clipNames) @ '' clips...'')];
         cleanup = map DeleteFile clipNames
     in case clipNames of
          [c] \<Rightarrow>
            if \<not> readClipOk E then (progress @ [ReadFile c], Inl (Thrown ''readFile''))
            else if \<not> writeVideoOnlyOk E then
              (progress @ [ReadFile c, WriteFile ''video_only.mp4'' (ContentOf c)],
               Inl (Thrown ''writeFile''))
            else
              (progress @ [ReadFile c, WriteFile ''video_only.mp4'' (ContentOf c)] @ cleanup,
               Inr ())
        | _ \<Rightarrow>
            if \<not> writeConcatOk E then
              (progress @ [WriteFile ''concat.txt'' (Text (concatList clipNames))],
               Inl (Thrown ''writeFile''))
            else if \<not> execConcatOk E then
              (progress @ [WriteFile ''concat.txt'' (Text (concatList clipNames)),
                 Exec concatArgs],
               Inl (Thrown ''exec''))
            else
              (progress @ [WriteFile ''concat.txt'' (Text (concatList clipNames)),
                 Exec concatArgs, DeleteFile ''concat.txt''] @ cleanup,
               Inr ()))"

subsection \<open>Step 3: audio mix\<close>

record MixState =
  audioInputArgs :: "string list"
  filterParts :: "string list"
  mixLabels :: "string list"
  validAudioCount :: nat

text \<open>
  \<open>Math.round((seg.startFrame / 30) * 1000)\<close>. For a whole frame number \<open>f\<close> the exact
  value \<open>100 f / 3\<close> is at least \<open>1/6\<close> away from every half-integer, so rounding the
  double that the code computes gives the same integer as rounding the exact value.
\<close>

definition delayMs :: "TimelineSegment \<Rightarrow> int" where
  "delayMs seg = round ((startFrame seg / 30) * 1000)"

definition delayFilter :: "nat \<Rightarrow> TimelineSegment \<Rightarrow> string" where
  "delayFilter count seg =
    ''['' @ natToString (count + 1) @ '':a]adelay='' @ intToString (delayMs seg) @ ''|'' @
      intToString (delayMs seg) @ '',apad[a'' @ natToString count @ '']''"

definition mixLabel :: "nat \<Rightarrow> string" where
  "mixLabel count = ''[a'' @ natToString count @ '']''"

definition audioNameOf ::
  "environment \<Rightarrow> Asset list \<Rightarrow> nat \<Rightarrow> TimelineSegment \<Rightarrow> string" where
  "audioNameOf E assets i seg =
    ''audio_'' @ natToString i @ ''.'' @
      getExtension E (Some (mimeTypeOr assets seg ''audio/wav''))"

definition failedAudioLog :: "nat \<Rightarrow> string" where
  "failedAudioLog i = ''[FFmpeg] Failed to load audio '' @ natToString i @ '':''"

text \<open>One iteration of the loop over the audio segments.\<close>

definition loadAudio ::
  "environment \<Rightarrow> Asset list \<Rightarrow> nat \<Rightarrow> TimelineSegment \<Rightarrow> MixState \<Rightarrow> event list \<times> MixState" where
  "loadAudio E assets i seg st =
    (if \<not> truthy (assetUrl seg) then ([], st)
     else
       (let audioName = audioNameOf E assets i seg;
            fetch = [FetchFile (assetUrl seg)];
            write = [WriteFile audioName (FetchedFrom (assetUrl seg))];
            caught = [ConsoleWarn (failedAudioLog i)]
        in if \<not> fetchAudioOk E i then (fetch @ caught, st)
           else if \<not> writeAudioOk E i then (fetch @ write @ caught, st)
           else
             (fetch @ write,
              \<lparr>audioInputArgs = audioInputArgs st @ [''-i'', audioName],
               filterParts = filterParts st @ [delayFilter (validAudioCount st) seg],
               mixLabels = mixLabels st @ [mixLabel (validAudioCount st)],
               validAudioCount = validAudioCount st + 1\<rparr>)))"

fun loadAudios ::
  "environment \<Rightarrow> Asset list \<Rightarrow> nat \<Rightarrow> TimelineSegment list \<Rightarrow> MixState \<Rightarrow> event list \<times> MixState" where
  "loadAudios E assets i [] st = ([], st)"
| "loadAudios E assets i (seg # rest) st =
    (let (evs, st') = loadAudio E assets i seg st;
         (evs', st'') = loadAudios E assets (Suc i) rest st'
     in (evs @ evs', st''))"

definition mixFilter :: "MixState \<Rightarrow> string" where
  "mixFilter st =
    join '';'' (filterParts st) @ '';'' @ concat (mixLabels st) @ ''amix=inputs='' @
      natToString (validAudioCount st) @ '':normalize=0[aout]''"

definition mixArgs :: "MixState \<Rightarrow> string list" where
  "mixArgs st =
    audioInputArgs st @
      [''-filter_complex'', mixFilter st, ''-map'', ''0:v'', ''-map'', ''[aout]'', ''-c:v'', ''copy'',
       ''-c:a'', ''aac'', ''-b:a'', ''128k'', ''-shortest'', ''final_output.mp4'']"

text \<open>The accumulators before the loop: input 0 of the mix command is the video.\<close>

definition initialMix :: MixState where
  "initialMix =
    \<lparr>audioInputArgs = [''-i'', ''video_only.mp4''], filterParts = [], mixLabels = [],
     validAudioCount = 0\<rparr>"

text \<open>Step 3: the events and the name of the final output file.\<close>

definition mixAudio ::
  "environment \<Rightarrow> Asset list \<Rightarrow> TimelineSegment list \<Rightarrow> event list \<times> string" where
  "mixAudio E assets audioSegments =
    (if audioSegments = [] then ([], ''video_only.mp4'')
     else
       (let progress = [Progress 0.75
              (''Mixing '' @ natToString (length audioSegments) @ '' audio track(s)...'')];
            (loads, st) = loadAudios E assets 0 audioSegments initialMix;
            cleanup = map (\<lambda>i. DeleteFile (''audio_'' @ natToString i @ ''.wav''))
              [0..<length audioSegments]
        in if validAudioCount st > 0 then
             (if execMixOk E then
                (progress @ loads @ [Exec (mixArgs st)] @ cleanup, ''final_output.mp4'')
              else
                (progress @ loads @ [Exec (mixArgs st),
                   ConsoleWarn ''[FFmpeg] Audio mixing failed, exporting video only:''] @ cleanup,
                 ''video_only.mp4''))
           else (progress @ loads @ cleanup, ''video_only.mp4'')))"

subsection \<open>Step 4 and the whole of renderTimeline\<close>

definition package :: "environment \<Rightarrow> string \<Rightarrow> event list \<times> (error + string)" where
  "package E finalOutput =
    (if \<not> readOutputOk E then
       ([Progress 0.92 ''Packaging final MP4...'', ReadFile finalOutput], Inl (Thrown ''readFile''))
     else
       ([Progress 0.92 ''Packaging final MP4...'', ReadFile finalOutput,
         DeleteFile ''video_only.mp4'', DeleteFile ''final_output.mp4'',
         Progress 1.0 ''Export complete!''],
        Inr (objectUrl E)))"

definition noVideoMessage :: string where
  "noVideoMessage = ''No video segments found on the timeline. Add clips to the V1 MAIN track first.''"

definition allFailedMessage :: string where
  "allFailedMessage = ''All clips failed to encode. Check your media files.''"

text \<open>A run of \<open>renderTimeline\<close>: its trace, and the rejection or the resolved URL.\<close>

definition renderTimeline ::
  "environment \<Rightarrow> TimelineSegment list \<Rightarrow> Asset list \<Rightarrow> event list \<times> (error + string)" where
  "renderTimeline E segs assets =
    (case loadFFmpeg E of
       (t0, Inl e) \<Rightarrow> (t0, Inl e)
     | (t0, Inr ff) \<Rightarrow>
         (let videoSegments = videoSegmentsOf segs;
              audioSegments = audioSegmentsOf segs
          in if videoSegments = [] then (t0, Inl (Error noVideoMessage))
             else
               (let (t1, clipNames) =
                      normalizeClips E assets (length videoSegments) 0 videoSegments
                in if clipNames = [] then (t0 @ t1, Inl (Error allFailedMessage))
                   else
                     (case concatClips E clipNames of
                        (t2, Inl e) \<Rightarrow> (t0 @ t1 @ t2, Inl e)
                      | (t2, Inr u) \<Rightarrow>
                          (let (t3, finalOutput) = mixAudio E assets audioSegments;
                               (t4, result) = package E finalOutput
                           in (t0 @ t1 @ t2 @ t3 @ t4, result))))))"


section \<open>Notions used to state the properties of the pipeline\<close>

text \<open>The fractions of step 1 for the video segments of a store.\<close>

definition stage1Fractions :: "TimelineSegment list \<Rightarrow> real list" where
  "stage1Fractions segs =
     map (stepProgress (length (videoSegmentsOf segs))) [0..<length (videoSegmentsOf segs)]"

text \<open>
  The clips \<open>clip_<k>.mp4\<close> of the segments whose three calls of step 1 succeed, in the
  order of the sorted video segments (ascending index \<open>k\<close>).
\<close>

definition encodedClips :: "environment \<Rightarrow> TimelineSegment list \<Rightarrow> string list" where
  "encodedClips E segs =
    map (\<lambda>k. ''clip_'' @ natToString k @ ''.mp4'')
      (filter (clipOk E) [0..<length (videoSegmentsOf segs)])"

text \<open>The engine is there: loaded already, or loading succeeds.\<close>

definition engineLoads :: "environment \<Rightarrow> bool" where
  "engineLoads E \<longleftrightarrow> ffmpegLoaded E \<or> loadSucceeds E"

text \<open>The engine calls of step 2 that are made for these clips do not throw.\<close>

definition concatCallsOk :: "environment \<Rightarrow> TimelineSegment list \<Rightarrow> bool" where
  "concatCallsOk E segs \<longleftrightarrow>
    (if length (encodedClips E segs) = 1 then readClipOk E \<and> writeVideoOnlyOk E
     else writeConcatOk E \<and> execConcatOk E)"

text \<open>The calls after step 1 that reject the run when they throw do not throw.\<close>

definition laterCallsOk :: "environment \<Rightarrow> TimelineSegment list \<Rightarrow> bool" where
  "laterCallsOk E segs \<longleftrightarrow> concatCallsOk E segs \<and> readOutputOk E"



text \<open>The two filter syntaxes of the specification: \<open>adelay=<ms>|<ms>\<close> and
  \<open>amix=inputs=<n>:normalize=0\<close>.\<close>

definition adelay :: "int \<Rightarrow> string" where
  "adelay ms = ''adelay='' @ intToString ms @ ''|'' @ intToString ms"

definition amix :: "nat \<Rightarrow> string" where
  "amix n = ''amix=inputs='' @ natToString n @ '':normalize=0''"

section \<open>Sample environments and stores for the pipeline\<close>

text \<open>Every call succeeds; the engine is not loaded yet.\<close>

definition happyWorld :: environment where
  "happyWorld =
    \<lparr>ffmpegLoaded = False, loadSucceeds = True, fetchVideoOk = (\<lambda>i. True),
     writeInputOk = (\<lambda>i. True), execClipOk = (\<lambda>i. True), readClipOk = True,
     writeVideoOnlyOk = True, writeConcatOk = True, execConcatOk = True,
     fetchAudioOk = (\<lambda>i. True), writeAudioOk = (\<lambda>i. True), execMixOk = True,
     readOutputOk = True, numberToString = (\<lambda>x. ''5''), objectUrl = ''blob:out'',
     inheritedMember = (\<lambda>key. None)\<rparr>"

text \<open>The fetch of the second video segment (index 1) fails.\<close>

definition secondFetchFails :: environment where
  "secondFetchFails = happyWorld\<lparr>fetchVideoOk := (\<lambda>i. i \<noteq> 1)\<rparr>"

text \<open>The engine cannot be loaded.\<close>

definition offline :: environment where
  "offline = happyWorld\<lparr>loadSucceeds := False\<rparr>"

text \<open>Three main-track segments, stored out of timeline order.\<close>

definition threeClips :: "TimelineSegment list" where
  "threeClips =
    [\<lparr>seg_id = ''b'', assetId = ''b'', trackId = VIDEO_MAIN, startFrame = 150, endFrame = 300,
      duration = 5, label = ''Second'', isAiGenerated = False, continuityScore = None,
      linkedSegmentId = None, assetUrl = Some ''https://media.example/b.mp4'',
      assetType = Some VIDEO, metadata = None\<rparr>,
     \<lparr>seg_id = ''a'', assetId = ''a'', trackId = VIDEO_MAIN, startFrame = 0, endFrame = 150,
      duration = 5, label = ''First'', isAiGenerated = False, continuityScore = None,
      linkedSegmentId = None, assetUrl = Some ''https://media.example/a.png'',
      assetType = Some IMAGE, metadata = None\<rparr>,
     \<lparr>seg_id = ''c'', assetId = ''c'', trackId = VIDEO_MAIN, startFrame = 300, endFrame = 450,
      duration = 5, label = ''Third'', isAiGenerated = False, continuityScore = None,
      linkedSegmentId = None, assetUrl = Some ''https://media.example/c.mp4'',
      assetType = Some VIDEO, metadata = None\<rparr>]"

text \<open>One video segment and one audio segment that starts at 2.0 s (frame 60).\<close>

definition voiceOver :: "TimelineSegment list" where
  "voiceOver =
    [\<lparr>seg_id = ''V'', assetId = ''vid'', trackId = VIDEO_MAIN, startFrame = 0, endFrame = 150,
      duration = 5, label = ''Scene'', isAiGenerated = True, continuityScore = None,
      linkedSegmentId = None, assetUrl = Some ''blob:vid'', assetType = Some VIDEO,
      metadata = None\<rparr>,
     \<lparr>seg_id = ''A'', assetId = ''aud'', trackId = AUDIO_TRACK, startFrame = 60, endFrame = 210,
      duration = 5, label = ''Voice'', isAiGenerated = True, continuityScore = None,
      linkedSegmentId = None, assetUrl = Some ''data:aud'', assetType = Some AUDIO,
      metadata = None\<rparr>]"

text \<open>Two main-track segments, one without \<open>assetUrl\<close> and one with the empty string.\<close>

definition noUrlStore :: "TimelineSegment list" where
  "noUrlStore =
    [\<lparr>seg_id = ''1'', assetId = ''start'', trackId = VIDEO_MAIN, startFrame = 0, endFrame = 120,
      duration = 4, label = ''Intro Hook'', isAiGenerated = False, continuityScore = None,
      linkedSegmentId = None, assetUrl = None, assetType = None, metadata = None\<rparr>,
     \<lparr>seg_id = ''2'', assetId = ''mid'', trackId = VIDEO_MAIN, startFrame = 121, endFrame = 240,
      duration = 4, label = ''Value Prop'', isAiGenerated = True, continuityScore = None,
      linkedSegmentId = None, assetUrl = Some [], assetType = None, metadata = None\<rparr>]"


section \<open>Segment store: deletion\<close>

text \<open>
  C1 (as stated, refuted). After a video asset is dropped on the timeline, deleting its audio
  segment \<open>audio-v\<close> leaves the video segment \<open>v\<close> in the store with
  \<open>linkedSegmentId = audio-v\<close>: the link to the removed segment is not cleared.
\<close>

theorem delete_leaves_link_counterexample:
  "map seg_id (handleDeleteSegment ''audio-v'' droppedPair) = [''v''] \<and>
   map linkedSegmentId (handleDeleteSegment ''audio-v'' droppedPair) = [Some ''audio-v'']"
  by (simp add: droppedPair_def handleDropAssetOnTimeline_def sampleVideo_def
      assetDurationOr_def Let_def handleDeleteSegment_def)

text \<open>
  C1 (amended). \<open>remove(id)\<close> removes exactly the segments whose id is \<open>id\<close> and keeps every
  other segment as it was, its \<open>linkedSegmentId\<close> included: after the call a segment
  references the removed id exactly when another segment referenced it before.
\<close>

theorem delete_removes_only_the_segment:
  "(\<forall>s\<in>set (handleDeleteSegment i segs). seg_id s \<noteq> i \<and> s \<in> set segs) \<and>
   (\<forall>s\<in>set segs. seg_id s \<noteq> i \<longrightarrow> s \<in> set (handleDeleteSegment i segs)) \<and>
   ((\<exists>s\<in>set (handleDeleteSegment i segs). linkedSegmentId s = Some i) \<longleftrightarrow>
    (\<exists>s\<in>set segs. seg_id s \<noteq> i \<and> linkedSegmentId s = Some i))"
  by (auto simp: handleDeleteSegment_def)

theorem delete_removes_only_the_segment_witness:
  "\<exists>s\<in>set (handleDeleteSegment ''audio-v'' droppedPair). linkedSegmentId s = Some ''audio-v''"
proof -
  have "\<exists>s\<in>set droppedPair. seg_id s \<noteq> ''audio-v'' \<and> linkedSegmentId s = Some ''audio-v''"
    by (simp add: droppedPair_def handleDropAssetOnTimeline_def sampleVideo_def
        assetDurationOr_def Let_def)
  with delete_removes_only_the_segment [of "''audio-v''" droppedPair] show ?thesis by blast
qed

section \<open>Segment store: the link cascade of an update\<close>

lemma update_nth:
  "j < length segs \<Longrightarrow>
   handleUpdateSegment a (moveTo x) segs ! j =
    (if seg_id (segs ! j) = a
     then (segs ! j)\<lparr>startFrame := x, endFrame := x + duration (segs ! j) * 30\<rparr>
     else case find (\<lambda>p. seg_id p = a) segs of
       None \<Rightarrow> segs ! j
     | Some m \<Rightarrow> if linkedSegmentId m = Some (seg_id (segs ! j))
                 then (segs ! j)\<lparr>startFrame := x, endFrame := x + duration (segs ! j) * 30\<rparr>
                 else segs ! j)"
  by (simp add: handleUpdateSegment_def moveTo_def mergeUpdates_def Let_def split: option.splits)

text \<open>
  C2 (as stated, refuted). In the pair of a director scene the audio segment \<open>Au\<close> links to the
  video segment \<open>V\<close>. Moving \<open>V\<close> to frame 30 leaves \<open>Au\<close> on frame 0 (\<open>V\<close> has no link).
  Moving \<open>Au\<close> to frame 10 then puts \<open>V\<close> on frame 10 as well: \<open>Au\<close> moved by +10 frames and \<open>V\<close>
  by -20. And in the pair of a dropped video, where the video segment links to its audio
  segment, moving the audio segment to frame 45 moves the video segment too.
\<close>

theorem link_cascade_counterexample:
  "linkedSegmentId (handleUpdateSegment ''V'' (moveTo 30) directorPair ! 1)
     = Some (seg_id (handleUpdateSegment ''V'' (moveTo 30) directorPair ! 0)) \<and>
   startFrame (handleUpdateSegment ''V'' (moveTo 30) directorPair ! 1) = 0 \<and>
   startFrame (handleUpdateSegment ''V'' (moveTo 30) directorPair ! 0) = 30 \<and>
   startFrame (handleUpdateSegment ''Au'' (moveTo 10)
     (handleUpdateSegment ''V'' (moveTo 30) directorPair) ! 1) = 10 \<and>
   startFrame (handleUpdateSegment ''Au'' (moveTo 10)
     (handleUpdateSegment ''V'' (moveTo 30) directorPair) ! 0) = 10 \<and>
   linkedSegmentId (droppedPair ! 0) = Some (seg_id (droppedPair ! 1)) \<and>
   startFrame (droppedPair ! 0) = 0 \<and>
   startFrame (handleUpdateSegment (seg_id (droppedPair ! 1)) (moveTo 45) droppedPair ! 0) = 45"
  by (simp add: directorPair_def droppedPair_def handleDropAssetOnTimeline_def sampleVideo_def
      assetDurationOr_def handleUpdateSegment_def moveTo_def mergeUpdates_def Let_def)

text \<open>
  C2 (amended). Let A and B be segments of the store with different ids, A the first segment
  with its id, and \<open>A.linkedSegmentId == B.id\<close>. Then \<open>update(A.id, {startFrame: x})\<close> puts
  both A and B on start frame \<open>x\<close> in the one call (B is set to A's new start, with its end
  frame recomputed from its own duration), so B moves by A's frame delta exactly when the
  two started on the same frame. The cascade follows the link of the updated segment only:
  \<open>update(B.id, {startFrame: y})\<close> leaves A unchanged unless the first segment with B's id
  names A as its link, in which case A is put on frame \<open>y\<close>.
\<close>

theorem link_cascade_snaps_to_new_start:
  assumes "i < length segs" and "j < length segs"
    and "seg_id (segs ! i) \<noteq> seg_id (segs ! j)"
    and "find (\<lambda>p. seg_id p = seg_id (segs ! i)) segs = Some (segs ! i)"
    and "linkedSegmentId (segs ! i) = Some (seg_id (segs ! j))"
  shows "startFrame (handleUpdateSegment (seg_id (segs ! i)) (moveTo x) segs ! i) = x \<and>
    startFrame (handleUpdateSegment (seg_id (segs ! i)) (moveTo x) segs ! j) = x \<and>
    endFrame (handleUpdateSegment (seg_id (segs ! i)) (moveTo x) segs ! j)
      = x + duration (segs ! j) * 30 \<and>
    (startFrame (handleUpdateSegment (seg_id (segs ! i)) (moveTo x) segs ! j)
        - startFrame (segs ! j) = x - startFrame (segs ! i)
      \<longleftrightarrow> startFrame (segs ! j) = startFrame (segs ! i)) \<and>
    (\<exists>m. find (\<lambda>p. seg_id p = seg_id (segs ! j)) segs = Some m \<and>
         (if linkedSegmentId m = Some (seg_id (segs ! i))
          then startFrame (handleUpdateSegment (seg_id (segs ! j)) (moveTo y) segs ! i) = y
          else handleUpdateSegment (seg_id (segs ! j)) (moveTo y) segs ! i = segs ! i))"
proof -
  let ?A = "segs ! i" and ?B = "segs ! j"
  have sA: "startFrame (handleUpdateSegment (seg_id ?A) (moveTo x) segs ! i) = x"
    using assms(1) by (simp add: update_nth)
  have sB: "startFrame (handleUpdateSegment (seg_id ?A) (moveTo x) segs ! j) = x"
    using assms by (simp add: update_nth)
  have eB: "endFrame (handleUpdateSegment (seg_id ?A) (moveTo x) segs ! j)
      = x + duration ?B * 30"
    using assms by (simp add: update_nth)
  have delta: "startFrame (handleUpdateSegment (seg_id ?A) (moveTo x) segs ! j) - startFrame ?B
           = x - startFrame ?A \<longleftrightarrow> startFrame ?B = startFrame ?A"
    unfolding sB by auto
  have "?B \<in> set segs" using assms(2) by simp
  then obtain m where m: "find (\<lambda>p. seg_id p = seg_id ?B) segs = Some m"
    by (cases "find (\<lambda>p. seg_id p = seg_id ?B) segs") (auto simp: find_None_iff)
  have other: "\<exists>m. find (\<lambda>p. seg_id p = seg_id ?B) segs = Some m \<and>
           (if linkedSegmentId m = Some (seg_id ?A)
            then startFrame (handleUpdateSegment (seg_id ?B) (moveTo y) segs ! i) = y
            else handleUpdateSegment (seg_id ?B) (moveTo y) segs ! i = ?A)"
    using m assms(1,3) by (auto simp: update_nth)
  from sA sB eB delta other show ?thesis by blast
qed

theorem link_cascade_snaps_to_new_start_witness:
  "startFrame (handleUpdateSegment (seg_id (directorPair ! 1)) (moveTo 10) directorPair ! 1) = 10 \<and>
   startFrame (handleUpdateSegment (seg_id (directorPair ! 1)) (moveTo 10) directorPair ! 0) = 10"
proof -
  have h: "1 < length directorPair" "0 < length directorPair"
    "seg_id (directorPair ! 1) \<noteq> seg_id (directorPair ! 0)"
    "find (\<lambda>p. seg_id p = seg_id (directorPair ! 1)) directorPair = Some (directorPair ! 1)"
    "linkedSegmentId (directorPair ! 1) = Some (seg_id (directorPair ! 0))"
    by (simp_all add: directorPair_def)
  from link_cascade_snaps_to_new_start [OF h, of 10] show ?thesis by blast
qed

section \<open>Segment store: the frame invariant under updates\<close>

lemma exactFrames_update:
  assumes "\<forall>s\<in>set segs. exactFrames s"
  shows "\<forall>s\<in>set (handleUpdateSegment i (moveTo x) segs). exactFrames s"
  using assms
  by (auto simp: handleUpdateSegment_def moveTo_def mergeUpdates_def Let_def exactFrames_def
      split: option.splits)

lemma exactFrames_updateAll:
  "\<forall>s\<in>set segs. exactFrames s \<Longrightarrow> \<forall>s\<in>set (updateAll calls segs). exactFrames s"
proof (induction calls arbitrary: segs)
  case Nil
  then show ?case by simp
next
  case (Cons c calls)
  obtain i x where c: "c = (i, x)" by (cases c)
  show ?case unfolding c updateAll.simps
    by (rule Cons.IH) (rule exactFrames_update [OF Cons.prems])
qed

lemma exactFrames_invariant: "exactFrames s \<Longrightarrow> frameInvariant s"
  by (auto simp: exactFrames_def frameInvariant_def Ints_def)

text \<open>
  C3 (as stated, refuted). In the initial store the second segment is on frames 121 to 240
  with a duration of 4 s (120 frames); an update of the first segment does not touch it, so
  it still breaks the invariant after the call. And a segment of 0.05 s (a frame and a half)
  that satisfies the invariant on frames 0 to 2 is put on frames 10 to 11.5 by an update of
  its start: the handler adds \<open>duration * 30\<close> without rounding.
\<close>

theorem update_invariant_counterexample:
  "\<not> frameInvariant (handleUpdateSegment ''1'' (moveTo 5) initialSegments ! 1) \<and>
   frameInvariant (halfFrameStore ! 0) \<and>
   \<not> frameInvariant (handleUpdateSegment ''h'' (moveTo 10) halfFrameStore ! 0)"
  by (simp add: initialSegments_def halfFrameStore_def handleUpdateSegment_def moveTo_def
      mergeUpdates_def Let_def frameInvariant_def round_def)

text \<open>
  C3 (amended). On a store in which every segment has \<open>endFrame == startFrame + duration * 30\<close>
  with \<open>duration * 30\<close> a whole number of frames, after each call of every sequence of
  \<open>update(id, {startFrame: x})\<close> calls every segment of the store satisfies
  \<open>endFrame == startFrame + round(duration * 30)\<close>.
\<close>

theorem update_keeps_exact_frames:
  assumes "\<forall>s\<in>set segs. endFrame s = startFrame s + duration s * 30 \<and> duration s * 30 \<in> \<int>"
  shows "\<forall>s\<in>set (updateAll (take k calls) segs).
           endFrame s = startFrame s + of_int (round (duration s * 30))"
proof -
  have "\<forall>s\<in>set segs. exactFrames s" using assms by (simp add: exactFrames_def)
  then have "\<forall>s\<in>set (updateAll (take k calls) segs). exactFrames s"
    by (rule exactFrames_updateAll)
  then show ?thesis using exactFrames_invariant by (auto simp: frameInvariant_def)
qed

theorem update_keeps_exact_frames_witness:
  "endFrame (updateAll (take 2 [(''V'', 30), (''Au'', 10), (''V'', 0)]) directorPair ! 0)
     = startFrame (updateAll (take 2 [(''V'', 30), (''Au'', 10), (''V'', 0)]) directorPair ! 0)
       + of_int (round (duration
           (updateAll (take 2 [(''V'', 30), (''Au'', 10), (''V'', 0)]) directorPair ! 0) * 30))"
proof -
  let ?r = "updateAll (take 2 [(''V'', 30), (''Au'', 10), (''V'', 0)]) directorPair"
  have h: "\<forall>s\<in>set directorPair. endFrame s = startFrame s + duration s * 30 \<and> duration s * 30 \<in> \<int>"
    by (simp add: directorPair_def)
  have "length ?r = 2"
    by (simp add: directorPair_def handleUpdateSegment_def)
  then have "?r ! 0 \<in> set ?r" by simp
  with update_keeps_exact_frames [OF h, of 2 "[(''V'', 30), (''Au'', 10), (''V'', 0)]"]
  show ?thesis by blast
qed

section \<open>Playback resolver\<close>

lemma resolveTrack_Some:
  "resolveTrack track segs frame = Some s \<longleftrightarrow>
      (\<exists>i<length segs. segs ! i = s \<and>
         trackId s = track \<and> startFrame s \<le> frame \<and> frame < endFrame s \<and>
         (\<forall>j<i. \<not> (trackId (segs ! j) = track \<and> startFrame (segs ! j) \<le> frame \<and>
                    frame < endFrame (segs ! j))))"
  unfolding resolveTrack_def find_Some_iff activeOn_def by auto

lemma resolveTrack_None:
  "resolveTrack track segs frame = None \<longleftrightarrow>
      \<not> (\<exists>s\<in>set segs. trackId s = track \<and> startFrame s \<le> frame \<and> frame < endFrame s)"
  unfolding resolveTrack_def find_None_iff activeOn_def by auto

lemma resolveTimeline_fields:
  "activeOverlaySeg (resolveTimeline TIMELINE time segs st) = resolveTrack OVERLAY segs (time * 30)"
  "activeAudioSeg (resolveTimeline TIMELINE time segs st) = resolveTrack AUDIO_TRACK segs (time * 30)"
  "activeVideoSeg (resolveTimeline TIMELINE time segs st) =
      (case resolveTrack VIDEO_MAIN segs (time * 30) of None \<Rightarrow> None
       | Some m \<Rightarrow> if assetType m = Some VIDEO then Some m else None)"
  "activeMainImageSeg (resolveTimeline TIMELINE time segs st) =
      (case resolveTrack VIDEO_MAIN segs (time * 30) of None \<Rightarrow> None
       | Some m \<Rightarrow> if assetType m = Some IMAGE then Some m else None)"
  by (simp_all add: resolveTimeline_def Let_def split: option.splits)

lemma resolveTrack_first: "resolveTrack track segs frame = Some s \<longleftrightarrow> firstCovering track segs frame s"
  unfolding firstCovering_def by (rule resolveTrack_Some)

text \<open>
  C4 (as stated, refuted). The two initial segments are on the main track and have no
  \<open>assetType\<close>. At 2 s (frame 60) the first of them covers the frame and is the match of the
  main-track \<open>find\<close>, yet neither an active video segment nor an active image segment is set:
  nothing is active on the main track. The same holds at frame 120 for two overlapping
  main-track segments on \<open>[0,150)\<close> and \<open>[100,200)\<close> without \<open>assetType\<close>.
\<close>

theorem resolver_typeless_main_counterexample:
  "trackId (initialSegments ! 0) = VIDEO_MAIN \<and>
   startFrame (initialSegments ! 0) \<le> 2 * 30 \<and> 2 * 30 < endFrame (initialSegments ! 0) \<and>
   resolveTrack VIDEO_MAIN initialSegments (2 * 30) = Some (initialSegments ! 0) \<and>
   activeVideoSeg (resolveTimeline TIMELINE 2 initialSegments emptyComposition) = None \<and>
   activeMainImageSeg (resolveTimeline TIMELINE 2 initialSegments emptyComposition) = None \<and>
   resolveTrack VIDEO_MAIN typelessOverlap (4 * 30) = Some (typelessOverlap ! 0) \<and>
   activeVideoSeg (resolveTimeline TIMELINE 4 typelessOverlap emptyComposition) = None \<and>
   activeMainImageSeg (resolveTimeline TIMELINE 4 typelessOverlap emptyComposition) = None"
  by (simp add: initialSegments_def typelessOverlap_def emptyComposition_def resolveTimeline_def
      resolveTrack_def activeOn_def Let_def)

text \<open>
  C4 (amended). For every segment list and query frame (\<open>time * 30\<close>), the playback resolver
  selects as the active overlay segment and as the active audio segment the first segment in
  store order on that track whose half-open interval \<open>[startFrame, endFrame)\<close> contains the
  frame, and none when no such segment exists. On the main video track the first such
  segment is selected as the active video segment when its \<open>assetType\<close> is \<open>VIDEO\<close> and as
  the active image segment when it is \<open>IMAGE\<close>; when it is neither, or no segment contains
  the frame, nothing is active on the main track. With main-track segments on \<open>[0,120)\<close> and
  \<open>[121,240)\<close>, frame 120 has no active main segment; with overlapping same-track segments
  on \<open>[0,150)\<close> and \<open>[100,200)\<close>, frame 120 resolves to the first-inserted segment on the
  overlay and audio tracks, and on the main track when that segment is a video or an image.
\<close>

theorem resolver_first_match_by_track:
  "(\<forall>s. activeOverlaySeg (resolveTimeline TIMELINE time segs st) = Some s \<longleftrightarrow>
        firstCovering OVERLAY segs (time * 30) s) \<and>
   (activeOverlaySeg (resolveTimeline TIMELINE time segs st) = None \<longleftrightarrow>
      \<not> (\<exists>s\<in>set segs. trackId s = OVERLAY \<and> startFrame s \<le> time * 30 \<and> time * 30 < endFrame s)) \<and>
   (\<forall>s. activeAudioSeg (resolveTimeline TIMELINE time segs st) = Some s \<longleftrightarrow>
        firstCovering AUDIO_TRACK segs (time * 30) s) \<and>
   (activeAudioSeg (resolveTimeline TIMELINE time segs st) = None \<longleftrightarrow>
      \<not> (\<exists>s\<in>set segs. trackId s = AUDIO_TRACK \<and> startFrame s \<le> time * 30 \<and>
            time * 30 < endFrame s)) \<and>
   (\<forall>s. activeVideoSeg (resolveTimeline TIMELINE time segs st) = Some s \<longleftrightarrow>
        firstCovering VIDEO_MAIN segs (time * 30) s \<and> assetType s = Some VIDEO) \<and>
   (\<forall>s. activeMainImageSeg (resolveTimeline TIMELINE time segs st) = Some s \<longleftrightarrow>
        firstCovering VIDEO_MAIN segs (time * 30) s \<and> assetType s = Some IMAGE) \<and>
   (\<not> (\<exists>s\<in>set segs. trackId s = VIDEO_MAIN \<and> startFrame s \<le> time * 30 \<and>
          time * 30 < endFrame s) \<longrightarrow>
      activeVideoSeg (resolveTimeline TIMELINE time segs st) = None \<and>
      activeMainImageSeg (resolveTimeline TIMELINE time segs st) = None) \<and>
   (trackId a = VIDEO_MAIN \<and> startFrame a = 0 \<and> endFrame a = 120 \<and>
    trackId b = VIDEO_MAIN \<and> startFrame b = 121 \<and> endFrame b = 240 \<longrightarrow>
      activeVideoSeg (resolveTimeline TIMELINE (120 / 30) [a, b] st) = None \<and>
      activeMainImageSeg (resolveTimeline TIMELINE (120 / 30) [a, b] st) = None) \<and>
   (trackId a = trackId b \<and> startFrame a = 0 \<and> endFrame a = 150 \<and>
    startFrame b = 100 \<and> endFrame b = 200 \<longrightarrow>
      (trackId a = OVERLAY \<longrightarrow>
         activeOverlaySeg (resolveTimeline TIMELINE (120 / 30) [a, b] st) = Some a) \<and>
      (trackId a = AUDIO_TRACK \<longrightarrow>
         activeAudioSeg (resolveTimeline TIMELINE (120 / 30) [a, b] st) = Some a) \<and>
      (trackId a = VIDEO_MAIN \<and> assetType a = Some VIDEO \<longrightarrow>
         activeVideoSeg (resolveTimeline TIMELINE (120 / 30) [a, b] st) = Some a) \<and>
      (trackId a = VIDEO_MAIN \<and> assetType a = Some IMAGE \<longrightarrow>
         activeMainImageSeg (resolveTimeline TIMELINE (120 / 30) [a, b] st) = Some a))"
proof -
  let ?R = "resolveTimeline TIMELINE time segs st"
  let ?f = "time * 30"
  note F = resolveTimeline_fields [of time segs st]
  have ovl: "\<forall>s. activeOverlaySeg ?R = Some s \<longleftrightarrow> firstCovering OVERLAY segs ?f s"
    by (simp add: F resolveTrack_first)
  have ovlN: "activeOverlaySeg ?R = None \<longleftrightarrow>
      \<not> (\<exists>s\<in>set segs. trackId s = OVERLAY \<and> startFrame s \<le> ?f \<and> ?f < endFrame s)"
    unfolding F by (rule resolveTrack_None)
  have aud: "\<forall>s. activeAudioSeg ?R = Some s \<longleftrightarrow> firstCovering AUDIO_TRACK segs ?f s"
    by (simp add: F resolveTrack_first)
  have audN: "activeAudioSeg ?R = None \<longleftrightarrow>
      \<not> (\<exists>s\<in>set segs. trackId s = AUDIO_TRACK \<and> startFrame s \<le> ?f \<and> ?f < endFrame s)"
    unfolding F by (rule resolveTrack_None)
  have vid: "\<forall>s. activeVideoSeg ?R = Some s \<longleftrightarrow>
        firstCovering VIDEO_MAIN segs ?f s \<and> assetType s = Some VIDEO"
  proof -
    have "activeVideoSeg ?R = Some s \<longleftrightarrow>
        resolveTrack VIDEO_MAIN segs ?f = Some s \<and> assetType s = Some VIDEO" for s
      by (auto simp: F split: option.splits)
    then show ?thesis by (simp add: resolveTrack_first)
  qed
  have img: "\<forall>s. activeMainImageSeg ?R = Some s \<longleftrightarrow>
        firstCovering VIDEO_MAIN segs ?f s \<and> assetType s = Some IMAGE"
  proof -
    have "activeMainImageSeg ?R = Some s \<longleftrightarrow>
        resolveTrack VIDEO_MAIN segs ?f = Some s \<and> assetType s = Some IMAGE" for s
      by (auto simp: F split: option.splits)
    then show ?thesis by (simp add: resolveTrack_first)
  qed
  have none: "\<not> (\<exists>s\<in>set segs. trackId s = VIDEO_MAIN \<and> startFrame s \<le> ?f \<and> ?f < endFrame s) \<longrightarrow>
      activeVideoSeg ?R = None \<and> activeMainImageSeg ?R = None"
  proof
    assume "\<not> (\<exists>s\<in>set segs. trackId s = VIDEO_MAIN \<and> startFrame s \<le> ?f \<and> ?f < endFrame s)"
    then have "resolveTrack VIDEO_MAIN segs ?f = None"
      using resolveTrack_None [of VIDEO_MAIN segs ?f] by blast
    then show "activeVideoSeg ?R = None \<and> activeMainImageSeg ?R = None" by (simp add: F)
  qed
  have gap: "trackId a = VIDEO_MAIN \<and> startFrame a = 0 \<and> endFrame a = 120 \<and>
    trackId b = VIDEO_MAIN \<and> startFrame b = 121 \<and> endFrame b = 240 \<longrightarrow>
      activeVideoSeg (resolveTimeline TIMELINE (120 / 30) [a, b] st) = None \<and>
      activeMainImageSeg (resolveTimeline TIMELINE (120 / 30) [a, b] st) = None"
    by (simp add: resolveTimeline_def resolveTrack_def activeOn_def Let_def)
  have overlap: "trackId a = trackId b \<and> startFrame a = 0 \<and> endFrame a = 150 \<and>
    startFrame b = 100 \<and> endFrame b = 200 \<longrightarrow>
      (trackId a = OVERLAY \<longrightarrow>
         activeOverlaySeg (resolveTimeline TIMELINE (120 / 30) [a, b] st) = Some a) \<and>
      (trackId a = AUDIO_TRACK \<longrightarrow>
         activeAudioSeg (resolveTimeline TIMELINE (120 / 30) [a, b] st) = Some a) \<and>
      (trackId a = VIDEO_MAIN \<and> assetType a = Some VIDEO \<longrightarrow>
         activeVideoSeg (resolveTimeline TIMELINE (120 / 30) [a, b] st) = Some a) \<and>
      (trackId a = VIDEO_MAIN \<and> assetType a = Some IMAGE \<longrightarrow>
         activeMainImageSeg (resolveTimeline TIMELINE (120 / 30) [a, b] st) = Some a)"
    by (simp add: resolveTimeline_def resolveTrack_def activeOn_def Let_def)
  from ovl ovlN aud audN vid img none gap overlap show ?thesis by blast
qed

theorem resolver_first_match_by_track_witness:
  "activeVideoSeg (resolveTimeline TIMELINE (120 / 30) initialSegments emptyComposition) = None \<and>
   activeMainImageSeg (resolveTimeline TIMELINE (120 / 30) initialSegments emptyComposition) = None \<and>
   activeOverlaySeg (resolveTimeline TIMELINE (120 / 30) overlapPair emptyComposition)
     = Some (overlapPair ! 0) \<and>
   activeMainImageSeg (resolveTimeline TIMELINE 1 threeClips emptyComposition)
     = Some (threeClips ! 1)"
proof -
  let ?a = "initialSegments ! 0" and ?b = "initialSegments ! 1"
  let ?c = "overlapPair ! 0" and ?d = "overlapPair ! 1"
  have i: "initialSegments = [?a, ?b]" by (simp add: initialSegments_def)
  have h1: "trackId ?a = VIDEO_MAIN \<and> startFrame ?a = 0 \<and> endFrame ?a = 120 \<and>
     trackId ?b = VIDEO_MAIN \<and> startFrame ?b = 121 \<and> endFrame ?b = 240"
    by (simp add: initialSegments_def)
  have o: "overlapPair = [?c, ?d]" by (simp add: overlapPair_def)
  have h2: "trackId ?c = trackId ?d \<and> startFrame ?c = 0 \<and> endFrame ?c = 150 \<and>
     startFrame ?d = 100 \<and> endFrame ?d = 200" and h3: "trackId ?c = OVERLAY"
    by (simp_all add: overlapPair_def)
  have g: "activeVideoSeg (resolveTimeline TIMELINE (120 / 30) [?a, ?b] emptyComposition) = None \<and>
      activeMainImageSeg (resolveTimeline TIMELINE (120 / 30) [?a, ?b] emptyComposition) = None"
    using resolver_first_match_by_track [where a = ?a and b = ?b and st = emptyComposition] h1
    by blast
  have v: "activeOverlaySeg (resolveTimeline TIMELINE (120 / 30) [?c, ?d] emptyComposition) = Some ?c"
    using resolver_first_match_by_track [where a = ?c and b = ?d and st = emptyComposition] h2 h3
    by blast
  have f: "firstCovering VIDEO_MAIN threeClips (1 * 30) (threeClips ! 1)"
    unfolding firstCovering_def
    by (rule exI [of _ 1]) (simp add: threeClips_def less_Suc_eq)
  have t: "assetType (threeClips ! 1) = Some IMAGE" by (simp add: threeClips_def)
  have m: "activeMainImageSeg (resolveTimeline TIMELINE 1 threeClips emptyComposition)
      = Some (threeClips ! 1)"
    using resolver_first_match_by_track [where time = 1 and segs = threeClips
        and st = emptyComposition] f t
    by blast
  show ?thesis using g v m i o by simp
qed

section \<open>Transport clock\<close>

text \<open>
  C10 (as stated, refuted). On the initial store the content lasts 8 s. After a seek to 8 s
  the time is 8; deleting the second segment shortens the content to 4 s and leaves the time
  at 8, outside \<open>[0, contentDuration]\<close>.
\<close>

theorem clock_range_counterexample:
  "timelineTime (handleSeek 8 initialClock) = 8 \<and>
   contentDuration (segments (handleSeek 8 initialClock)) = 8 \<and>
   timelineTime (onSegments (handleDeleteSegment ''2'') (handleSeek 8 initialClock)) = 8 \<and>
   contentDuration (segments (onSegments (handleDeleteSegment ''2'') (handleSeek 8 initialClock)))
     = 4"
  by (simp add: initialClock_def initialSegments_def handleSeek_def contentDuration_def
      onSegments_def handleDeleteSegment_def Let_def)

text \<open>
  C10 (amended). While the store is unchanged and its \<open>contentDuration\<close> (the maximal end
  frame divided by 30, or 10 for the empty store) is not negative: \<open>handleSeek\<close> sets the time
  to its argument clamped into \<open>[0, contentDuration]\<close>; a tick of the playing clock that
  reaches or passes \<open>contentDuration\<close> sets the time to exactly \<open>contentDuration\<close> and stops
  playback; and from a time within \<open>[0, contentDuration]\<close>, a tick (with a timestamp not
  before the last one) and a play toggle keep the time within that range.
\<close>

theorem clock_stays_in_range:
  assumes "0 \<le> contentDuration (segments st)"
  shows "timelineTime (handleSeek t st) = min (max 0 t) (contentDuration (segments st)) \<and>
    0 \<le> timelineTime (handleSeek t st) \<and>
    timelineTime (handleSeek t st) \<le> contentDuration (segments (handleSeek t st)) \<and>
    (isTimelinePlaying st \<and>
       timelineTime st + (timestamp - (if lastTick st = 0 then timestamp else lastTick st)) / 1000
         \<ge> contentDuration (segments st) \<longrightarrow>
     timelineTime (tick timestamp st) = contentDuration (segments st) \<and>
     \<not> isTimelinePlaying (tick timestamp st)) \<and>
    (0 \<le> timelineTime st \<and> timelineTime st \<le> contentDuration (segments st) \<and>
     lastTick st \<le> timestamp \<longrightarrow>
     0 \<le> timelineTime (tick timestamp st) \<and>
     timelineTime (tick timestamp st) \<le> contentDuration (segments (tick timestamp st)) \<and>
     0 \<le> timelineTime (toggleTimelinePlay st) \<and>
     timelineTime (toggleTimelinePlay st) \<le> contentDuration (segments (toggleTimelinePlay st)))"
  using assms
  by (auto simp: handleSeek_def tick_def toggleTimelinePlay_def Let_def)

theorem clock_stays_in_range_witness:
  "timelineTime (handleSeek 9 initialClock) = 8 \<and>
   timelineTime (tick 2000 (toggleTimelinePlay (handleSeek 7 initialClock))) = 7 \<and>
   timelineTime (tick 4000 (tick 2000 (toggleTimelinePlay (handleSeek 7 initialClock)))) = 8 \<and>
   \<not> isTimelinePlaying (tick 4000 (tick 2000 (toggleTimelinePlay (handleSeek 7 initialClock))))"
proof -
  let ?s = "tick 2000 (toggleTimelinePlay (handleSeek 7 initialClock))"
  have cd: "contentDuration (segments initialClock) = 8"
    by (simp add: initialClock_def initialSegments_def contentDuration_def)
  have s: "segments ?s = segments initialClock \<and> isTimelinePlaying ?s \<and> timelineTime ?s = 7 \<and>
      lastTick ?s = 2000"
    by (simp add: initialClock_def initialSegments_def contentDuration_def handleSeek_def
        toggleTimelinePlay_def tick_def Let_def)
  have "timelineTime (handleSeek 9 initialClock) = 8"
    using clock_stays_in_range [of initialClock 9] cd by simp
  moreover have "timelineTime (tick 4000 ?s) = 8 \<and> \<not> isTimelinePlaying (tick 4000 ?s)"
    using clock_stays_in_range [of ?s 0 4000] cd s by simp
  ultimately show ?thesis using s by simp
qed

section \<open>Render pipeline: the progress fractions\<close>

lemma fractions_append: "fractions (a @ b) = fractions a @ fractions b"
  by (induction a rule: fractions.induct) auto

lemma fractions_deletes: "fractions (map (\<lambda>x. DeleteFile (f x)) xs) = []"
  by (induction xs) auto

lemma fractions_normalizeClip:
  "fractions (fst (normalizeClip E assets n i seg)) = [stepProgress n i]"
  by (simp add: normalizeClip_def Let_def fractions_append)

lemma fractions_normalizeClips:
  "fractions (fst (normalizeClips E assets n i segs)) = map (stepProgress n) [i..<i + length segs]"
proof (induction segs arbitrary: i)
  case Nil
  then show ?case by simp
next
  case (Cons seg rest)
  have "[i..<i + length (seg # rest)] = i # [Suc i..<Suc i + length rest]"
    by (simp add: upt_rec)
  then show ?case
    using Cons.IH [of "Suc i"]
    by (simp add: split_beta fractions_append fractions_normalizeClip)
qed

lemma fractions_concatClips: "fractions (fst (concatClips E clipNames)) = [0.65]"
  using fractions_deletes [of "\<lambda>x. x"]
  by (auto simp: concatClips_def Let_def fractions_append split: list.splits)

lemma fractions_loadAudio: "fractions (fst (loadAudio E assets i seg st)) = []"
  by (simp add: loadAudio_def Let_def)

lemma fractions_loadAudios: "fractions (fst (loadAudios E assets i segs st)) = []"
  by (induction segs arbitrary: i st)
     (simp_all add: split_beta fractions_append fractions_loadAudio)

lemma fractions_mixAudio:
  "fractions (fst (mixAudio E assets audioSegments)) = (if audioSegments = [] then [] else [0.75])"
  by (simp add: mixAudio_def Let_def split_beta fractions_append fractions_loadAudios
      fractions_deletes)

lemma fractions_package:
  "fractions (fst (package E out)) = (if readOutputOk E then [0.92, 1] else [0.92])"
  by (simp add: package_def)

lemma stepProgress_bounds:
  assumes "i < n"
  shows "0.05 \<le> stepProgress n i" and "stepProgress n i < 0.6"
proof -
  have n: "0 < real n" using assms by simp
  have q0: "0 \<le> real i / real n" using n by simp
  have q1: "real i / real n < 1" using assms n by simp
  show "0.05 \<le> stepProgress n i" using q0 by (simp add: stepProgress_def)
  show "stepProgress n i < 0.6" using q1 by (simp add: stepProgress_def)
qed

lemma stepProgress_mono:
  assumes "i < j" and "0 < n"
  shows "stepProgress n i < stepProgress n j"
proof -
  have "real i / real n < real j / real n"
    using assms by (simp add: divide_strict_right_mono)
  then show ?thesis by (simp add: stepProgress_def)
qed

lemma stage1Fractions_sorted: "sorted_wrt (<) (stage1Fractions segs)"
  unfolding stage1Fractions_def
  by (auto simp: sorted_wrt_iff_nth_less intro!: stepProgress_mono)

lemma stage1Fractions_range: "p \<in> set (stage1Fractions segs) \<Longrightarrow> 0.05 \<le> p \<and> p < 0.6"
  unfolding stage1Fractions_def using stepProgress_bounds by auto

text \<open>The fractions of a run, by the point where it ends.\<close>

lemma run_fractions:
  "fractions (fst (renderTimeline E segs assets)) =
    (if ffmpegLoaded E then [] else [0.02]) @
    (if (\<not> ffmpegLoaded E \<and> \<not> loadSucceeds E) \<or> videoSegmentsOf segs = [] then []
     else stage1Fractions segs @
       (if snd (normalizeClips E assets (length (videoSegmentsOf segs)) 0 (videoSegmentsOf segs)) = []
        then []
        else 0.65 #
          (if isl (snd (concatClips E
                (snd (normalizeClips E assets (length (videoSegmentsOf segs)) 0
                       (videoSegmentsOf segs)))))
           then []
           else (if audioSegmentsOf segs = [] then [] else [0.75]) @
                (if readOutputOk E then [0.92, 1] else [0.92]))))"
proof -
  let ?vs = "videoSegmentsOf segs"
  let ?n = "normalizeClips E assets (length ?vs) 0 ?vs"
  let ?c = "concatClips E (snd ?n)"
  have f1: "fractions (fst ?n) = stage1Fractions segs"
    by (simp add: fractions_normalizeClips stage1Fractions_def)
  have f2: "fractions (fst ?c) = [0.65]" by (rule fractions_concatClips)
  show ?thesis
    using f1 f2
    by (cases "snd ?c")
       (simp_all add: renderTimeline_def loadFFmpeg_def Let_def split_beta fractions_append
          fractions_mixAudio fractions_package split: prod.splits sum.splits)
qed

lemma run_resolves:
  "(\<exists>url. snd (renderTimeline E segs assets) = Inr url) \<longleftrightarrow>
    (ffmpegLoaded E \<or> loadSucceeds E) \<and> videoSegmentsOf segs \<noteq> [] \<and>
    snd (normalizeClips E assets (length (videoSegmentsOf segs)) 0 (videoSegmentsOf segs)) \<noteq> [] \<and>
    \<not> isl (snd (concatClips E
        (snd (normalizeClips E assets (length (videoSegmentsOf segs)) 0 (videoSegmentsOf segs))))) \<and>
    readOutputOk E"
proof -
  let ?vs = "videoSegmentsOf segs"
  let ?n = "normalizeClips E assets (length ?vs) 0 ?vs"
  let ?c = "concatClips E (snd ?n)"
  show ?thesis
    by (cases "snd ?c")
       (simp_all add: renderTimeline_def loadFFmpeg_def Let_def split_beta package_def
          split: prod.splits sum.splits)
qed

text \<open>
  C8. In every run of \<open>renderTimeline\<close>, whatever the engine and the network do, the
  fractions passed to the progress callback are strictly increasing and lie in \<open>[0, 1]\<close>,
  and the fraction 1 is among them exactly when the run resolves.
\<close>

theorem progress_monotone_and_complete:
  "sorted_wrt (<) (fractions (fst (renderTimeline E segs assets))) \<and>
   (\<forall>p\<in>set (fractions (fst (renderTimeline E segs assets))). 0 \<le> p \<and> p \<le> 1) \<and>
   (1 \<in> set (fractions (fst (renderTimeline E segs assets))) \<longleftrightarrow>
      (\<exists>url. snd (renderTimeline E segs assets) = Inr url))"
proof -
  have r: "\<And>p. p \<in> set (stage1Fractions segs) \<Longrightarrow> 0.05 \<le> p \<and> p < 0.6"
    by (rule stage1Fractions_range)
  have s: "sorted_wrt (<) (stage1Fractions segs)" by (rule stage1Fractions_sorted)
  have mono: "sorted_wrt (<) (fractions (fst (renderTimeline E segs assets)))"
    unfolding run_fractions using r s
    by (auto simp: sorted_wrt_append dest!: r)
  have range: "\<forall>p\<in>set (fractions (fst (renderTimeline E segs assets))). 0 \<le> p \<and> p \<le> 1"
    unfolding run_fractions using r
    by (auto dest!: r)
  have one: "1 \<in> set (fractions (fst (renderTimeline E segs assets))) \<longleftrightarrow>
      (\<exists>url. snd (renderTimeline E segs assets) = Inr url)"
    unfolding run_fractions run_resolves using r
    by (auto dest!: r)
  from mono range one show ?thesis by blast
qed

theorem progress_monotone_and_complete_witness:
  "sorted_wrt (<) (fractions (fst (renderTimeline happyWorld voiceOver []))) \<and>
   1 \<in> set (fractions (fst (renderTimeline happyWorld voiceOver []))) \<and>
   1 \<notin> set (fractions (fst (renderTimeline offline voiceOver [])))"
proof -
  have r1: "snd (renderTimeline happyWorld voiceOver []) = Inr ''blob:out''" by code_simp
  have r2: "snd (renderTimeline offline voiceOver []) = Inl (Thrown ''ffmpeg.load'')" by code_simp
  from progress_monotone_and_complete [of happyWorld voiceOver "[]"]
    progress_monotone_and_complete [of offline voiceOver "[]"] r1 r2
  show ?thesis by simp
qed

section \<open>Render pipeline: step 1 and the failure of clips\<close>

lemma digitChar_inj: "a < 10 \<Longrightarrow> b < 10 \<Longrightarrow> digitChar a = digitChar b \<Longrightarrow> a = b"
  by (simp add: digitChar_def split: if_splits) arith

lemma natToString_nonempty: "natToString n \<noteq> []"
  by (subst natToString.simps) simp

lemma natToString_inj: "natToString n = natToString m \<Longrightarrow> n = m"
proof (induction n arbitrary: m rule: natToString.induct)
  case (1 n)
  show ?case
  proof (cases "n < 10")
    case True
    show ?thesis
    proof (cases "m < 10")
      case m: True
      from "1.prems" have "digitChar n = digitChar m"
        by (subst (asm) natToString.simps, subst (asm) (2) natToString.simps) (simp add: True m)
      then show ?thesis using True m by (rule digitChar_inj [rotated 2])
    next
      case m: False
      from "1.prems" have "[digitChar n] = natToString (m div 10) @ [digitChar (m mod 10)]"
        by (subst (asm) natToString.simps, subst (asm) (2) natToString.simps) (simp add: True m)
      then show ?thesis using natToString_nonempty [of "m div 10"] by simp
    qed
  next
    case False
    show ?thesis
    proof (cases "m < 10")
      case m: True
      from "1.prems" have "natToString (n div 10) @ [digitChar (n mod 10)] = [digitChar m]"
        by (subst (asm) natToString.simps, subst (asm) (2) natToString.simps) (simp add: False m)
      then show ?thesis using natToString_nonempty [of "n div 10"] by simp
    next
      case m: False
      from "1.prems" have "natToString (n div 10) @ [digitChar (n mod 10)]
          = natToString (m div 10) @ [digitChar (m mod 10)]"
        by (subst (asm) natToString.simps, subst (asm) (2) natToString.simps) (simp add: False m)
      then have a: "natToString (n div 10) = natToString (m div 10)"
        and b: "digitChar (n mod 10) = digitChar (m mod 10)" by simp_all
      from "1.IH" [OF False a] have d: "n div 10 = m div 10" .
      from b have e: "n mod 10 = m mod 10" by (rule digitChar_inj [rotated 2]) simp_all
      from d e show ?thesis by (metis div_mult_mod_eq)
    qed
  qed
qed

lemma natToString_small:
  "natToString 0 = ''0''" "natToString (Suc 0) = ''1''" "natToString (Suc (Suc 0)) = ''2''"
  "natToString 1 = ''1''" "natToString 2 = ''2''" "natToString 3 = ''3''"
  "natToString 2000 = ''2000''"
  by code_simp+

lemma clipName_inj: "clipName a = clipName b \<Longrightarrow> a = b"
  by (simp add: clipName_def natToString_inj)

lemma encodedClips_names:
  "encodedClips E segs = map clipName (filter (clipOk E) [0..<length (videoSegmentsOf segs)])"
  by (simp add: encodedClips_def clipName_def)

lemma encodedClips_skip:
  "k < length (videoSegmentsOf segs) \<Longrightarrow>
   clipName k \<in> set (encodedClips E segs) \<longleftrightarrow> clipOk E k"
  by (auto simp: encodedClips_names dest: clipName_inj)

lemma normalizeClip_ok: "snd (normalizeClip E assets n i seg) = clipOk E i"
  by (simp add: normalizeClip_def Let_def clipOk_def)

lemma normalizeClips_names:
  "snd (normalizeClips E assets n i segs) = map clipName (filter (clipOk E) [i..<i + length segs])"
proof (induction segs arbitrary: i)
  case Nil
  then show ?case by simp
next
  case (Cons seg rest)
  have "[i..<i + length (seg # rest)] = i # [Suc i..<Suc i + length rest]"
    by (simp add: upt_rec)
  then show ?case
    using Cons.IH [of "Suc i"] by (simp add: split_beta normalizeClip_ok)
qed

lemma normalizeClip_events:
  "FetchFile (assetUrl seg) \<in> set (fst (normalizeClip E assets n i seg))"
  "\<not> clipOk E i \<Longrightarrow> ConsoleError (failedClipLog i) \<in> set (fst (normalizeClip E assets n i seg))"
  by (auto simp: normalizeClip_def Let_def clipOk_def)

lemma normalizeClips_fetches:
  "k < length segs \<Longrightarrow>
   FetchFile (assetUrl (segs ! k)) \<in> set (fst (normalizeClips E assets n i segs))"
proof (induction segs arbitrary: i k)
  case Nil
  then show ?case by simp
next
  case (Cons seg rest)
  show ?case
  proof (cases k)
    case 0
    then show ?thesis by (simp add: split_beta normalizeClip_events)
  next
    case (Suc k')
    then have "k' < length rest" using Cons.prems by simp
    from Cons.IH [OF this, of "Suc i"] Suc show ?thesis by (simp add: split_beta)
  qed
qed

lemma normalizeClips_progress:
  "k < length segs \<Longrightarrow>
   Progress (stepProgress n (i + k)) (encodingLabel n (i + k) (segs ! k))
     \<in> set (fst (normalizeClips E assets n i segs))"
proof (induction segs arbitrary: i k)
  case Nil
  then show ?case by simp
next
  case (Cons seg rest)
  show ?case
  proof (cases k)
    case 0
    then show ?thesis by (simp add: split_beta normalizeClip_def Let_def)
  next
    case (Suc k')
    then have "k' < length rest" using Cons.prems by simp
    from Cons.IH [OF this, of "Suc i"] Suc show ?thesis by (simp add: split_beta)
  qed
qed

lemma normalizeClips_logs:
  "k < length segs \<Longrightarrow> \<not> clipOk E (i + k) \<Longrightarrow>
   ConsoleError (failedClipLog (i + k)) \<in> set (fst (normalizeClips E assets n i segs))"
proof (induction segs arbitrary: i k)
  case Nil
  then show ?case by simp
next
  case (Cons seg rest)
  show ?case
  proof (cases k)
    case 0
    with Cons.prems show ?thesis by (simp add: split_beta normalizeClip_events)
  next
    case (Suc k')
    then have k': "k' < length rest" using Cons.prems by simp
    have "\<not> clipOk E (Suc i + k')" using Cons.prems Suc by simp
    from Cons.IH [OF k' this] Suc show ?thesis by (simp add: split_beta)
  qed
qed

lemma concatClips_ok:
  "clips \<noteq> [] \<Longrightarrow>
   (if length clips = 1 then readClipOk E \<and> writeVideoOnlyOk E
    else writeConcatOk E \<and> execConcatOk E)
   \<Longrightarrow> snd (concatClips E clips) = Inr () \<and>
       (\<forall>c. clips = [c] \<longrightarrow>
          ReadFile c \<in> set (fst (concatClips E clips)) \<and>
          WriteFile ''video_only.mp4'' (ContentOf c) \<in> set (fst (concatClips E clips))) \<and>
       (2 \<le> length clips \<longrightarrow>
          WriteFile ''concat.txt'' (Text (concatList clips)) \<in> set (fst (concatClips E clips)) \<and>
          Exec concatArgs \<in> set (fst (concatClips E clips)))"
  by (auto simp: concatClips_def Let_def split: list.splits)

lemma videoSegmentsOf_sorted: "sorted (map startFrame (videoSegmentsOf segs))"
  by (simp add: videoSegmentsOf_def)

lemma messages_differ: "allFailedMessage \<noteq> noVideoMessage"
  by (simp add: allFailedMessage_def noVideoMessage_def)

lemma run_after_load:
  assumes "engineLoads E" and "videoSegmentsOf segs \<noteq> []"
  shows "set (fst (normalizeClips E assets (length (videoSegmentsOf segs)) 0 (videoSegmentsOf segs)))
           \<subseteq> set (fst (renderTimeline E segs assets))"
  using assms
  by (auto simp: renderTimeline_def loadFFmpeg_def engineLoads_def Let_def split_beta
      split: prod.splits sum.splits)

lemma run_all_failed:
  assumes "engineLoads E" and "videoSegmentsOf segs \<noteq> []"
    and "encodedClips E segs = []"
  shows "snd (renderTimeline E segs assets) = Inl (Error allFailedMessage)"
  using assms
  by (auto simp: renderTimeline_def loadFFmpeg_def engineLoads_def Let_def split_beta
      normalizeClips_names encodedClips_names split: prod.splits sum.splits)

lemma run_past_concat:
  assumes "engineLoads E" and "encodedClips E segs \<noteq> []" and "concatCallsOk E segs"
  shows "set (fst (concatClips E (encodedClips E segs))) \<subseteq> set (fst (renderTimeline E segs assets))"
    and "set (fst (mixAudio E assets (audioSegmentsOf segs))) \<subseteq> set (fst (renderTimeline E segs assets))"
    and "readOutputOk E \<Longrightarrow> snd (renderTimeline E segs assets) = Inr (objectUrl E)"
    and "set (fst (package E (snd (mixAudio E assets (audioSegmentsOf segs)))))
           \<subseteq> set (fst (renderTimeline E segs assets))"
proof -
  have vs: "videoSegmentsOf segs \<noteq> []" using assms(2) by (auto simp: encodedClips_def)
  have n: "snd (normalizeClips E assets (length (videoSegmentsOf segs)) 0 (videoSegmentsOf segs))
      = encodedClips E segs"
    by (simp add: normalizeClips_names encodedClips_names)
  have c: "snd (concatClips E (encodedClips E segs)) = Inr ()"
    using concatClips_ok [OF assms(2)] assms(3) by (simp add: concatCallsOk_def)
  show "set (fst (concatClips E (encodedClips E segs))) \<subseteq> set (fst (renderTimeline E segs assets))"
    using assms(1,2) vs n c
    by (auto simp: renderTimeline_def loadFFmpeg_def engineLoads_def Let_def split_beta
        split: prod.splits sum.splits)
  show "set (fst (mixAudio E assets (audioSegmentsOf segs))) \<subseteq> set (fst (renderTimeline E segs assets))"
    using assms(1,2) vs n c
    by (auto simp: renderTimeline_def loadFFmpeg_def engineLoads_def Let_def split_beta
        split: prod.splits sum.splits)
  show "readOutputOk E \<Longrightarrow> snd (renderTimeline E segs assets) = Inr (objectUrl E)"
    using assms(1,2) vs n c
    by (auto simp: renderTimeline_def loadFFmpeg_def engineLoads_def Let_def split_beta
        package_def split: prod.splits sum.splits)
  show "set (fst (package E (snd (mixAudio E assets (audioSegmentsOf segs)))))
           \<subseteq> set (fst (renderTimeline E segs assets))"
    using assms(1,2) vs n c
    by (auto simp: renderTimeline_def loadFFmpeg_def engineLoads_def Let_def split_beta
        split: prod.splits sum.splits)
qed

lemma join_lines:
  "xs \<noteq> [] \<Longrightarrow> join sep xs = hd xs @ concat (map (\<lambda>y. sep @ y) (tl xs))"
  by (induction sep xs rule: join.induct) simp_all

lemma concatList_lines:
  "clips \<noteq> [] \<Longrightarrow>
   concatList clips =
     ''file '' @ [CHR 0x27] @ hd clips @ [CHR 0x27] @
       concat (map (\<lambda>c. [CHR 0x0A] @ ''file '' @ [CHR 0x27] @ c @ [CHR 0x27]) (tl clips))"
  by (simp add: concatList_def join_lines hd_map map_tl [symmetric] comp_def)

lemma normalizeClips_encodes:
  "k < length segs \<Longrightarrow> clipOk E (i + k) \<Longrightarrow>
   \<exists>inputName.
     WriteFile inputName (FetchedFrom (assetUrl (segs ! k)))
       \<in> set (fst (normalizeClips E assets n i segs)) \<and>
     Exec (encodeArgs E inputName (clipName (i + k)) (segs ! k))
       \<in> set (fst (normalizeClips E assets n i segs))"
proof (induction segs arbitrary: i k)
  case Nil
  then show ?case by simp
next
  case (Cons seg rest)
  show ?case
  proof (cases k)
    case 0
    with Cons.prems show ?thesis
      by (intro exI [of _ "inputNameOf E assets i seg"])
         (simp add: split_beta normalizeClip_def Let_def clipOk_def)
  next
    case (Suc k')
    then have k': "k' < length rest" using Cons.prems by simp
    have "clipOk E (Suc i + k')" using Cons.prems Suc by simp
    from Cons.IH [OF k' this] Suc show ?thesis by (auto simp: split_beta)
  qed
qed

lemma package_reads: "ReadFile out \<in> set (fst (package E out))"
  by (simp add: package_def)

lemma mixAudio_output:
  "snd (mixAudio E assets auds) = ''video_only.mp4'' \<or>
   snd (mixAudio E assets auds) = ''final_output.mp4''"
  "auds = [] \<Longrightarrow> snd (mixAudio E assets auds) = ''video_only.mp4''"
  by (simp_all add: mixAudio_def Let_def split_beta)

lemma run_reads_output:
  assumes "engineLoads E" and "encodedClips E segs \<noteq> []" and "concatCallsOk E segs"
  shows "ReadFile ''video_only.mp4'' \<in> set (fst (renderTimeline E segs assets)) \<or>
         ReadFile ''final_output.mp4'' \<in> set (fst (renderTimeline E segs assets))"
    and "audioSegmentsOf segs = [] \<Longrightarrow>
         ReadFile ''video_only.mp4'' \<in> set (fst (renderTimeline E segs assets))"
proof -
  let ?out = "snd (mixAudio E assets (audioSegmentsOf segs))"
  note sub = run_past_concat(4) [OF assms, of assets]
  have r: "ReadFile ?out \<in> set (fst (renderTimeline E segs assets))"
    using package_reads [of ?out E] sub by blast
  show "ReadFile ''video_only.mp4'' \<in> set (fst (renderTimeline E segs assets)) \<or>
         ReadFile ''final_output.mp4'' \<in> set (fst (renderTimeline E segs assets))"
    using r mixAudio_output(1) [of E assets "audioSegmentsOf segs"] by auto
  show "audioSegmentsOf segs = [] \<Longrightarrow>
         ReadFile ''video_only.mp4'' \<in> set (fst (renderTimeline E segs assets))"
    using r mixAudio_output(2) [of "audioSegmentsOf segs" E assets] by auto
qed

text \<open>
  C5. Let the engine be loaded. The video segments are processed in ascending
  \<open>startFrame\<close> order, and every one of them is attempted (its progress report and its
  fetch are in the trace), whatever happened to the segments before it. A segment whose
  fetch, write or encode throws is logged with \<open>console.error\<close> and its clip
  \<open>clip_<k>.mp4\<close> is left out of the clip list; a segment whose three calls succeed is
  written to the engine and encoded into \<open>clip_<k>.mp4\<close> (with the image or the video
  arguments, for its own duration), and its clip is in the list. If at least one clip
  succeeds and the engine calls of the later mandatory steps (concatenation, reading the
  output) do not throw, the run resolves, and the video is made of exactly the successful
  clips in that order: the single clip is read and copied to \<open>video_only.mp4\<close>, or the
  concat list, one line \<open>file '<name>'\<close> per clip in that order with a line feed between
  two lines, is written and the concat command executed; the file read back as the output is \<open>video_only.mp4\<close> or the mix made
  from it. If every video segment fails, the run rejects with the error
  \<open>All clips failed to encode. Check your media files.\<close>, which is not the error of the
  missing video segments.
\<close>

theorem partial_clip_failure_is_skipped:
  assumes "engineLoads E"
  shows "sorted (map startFrame (videoSegmentsOf segs)) \<and>
    (\<forall>k<length (videoSegmentsOf segs).
        Progress (0.05 + (real k / real (length (videoSegmentsOf segs))) * 0.55)
            (''Encoding clip '' @ natToString (k + 1) @ ''/'' @
               natToString (length (videoSegmentsOf segs)) @ '': '' @
               [CHR 0x22] @ label (videoSegmentsOf segs ! k) @ [CHR 0x22])
          \<in> set (fst (renderTimeline E segs assets)) \<and>
        FetchFile (assetUrl (videoSegmentsOf segs ! k)) \<in> set (fst (renderTimeline E segs assets)) \<and>
        ((''clip_'' @ natToString k @ ''.mp4'') \<in> set (encodedClips E segs) \<longleftrightarrow> clipOk E k) \<and>
        (clipOk E k \<longrightarrow>
           (\<exists>inputName.
              WriteFile inputName (FetchedFrom (assetUrl (videoSegmentsOf segs ! k)))
                \<in> set (fst (renderTimeline E segs assets)) \<and>
              Exec (if assetType (videoSegmentsOf segs ! k) = Some IMAGE then
                      [''-loop'', ''1'', ''-i'', inputName, ''-t'',
                       numberToString E (max 1 (duration (videoSegmentsOf segs ! k))), ''-vf'',
                       ''scale=1280:720:force_original_aspect_ratio=decrease,pad=1280:720:(ow-iw)/2:(oh-ih)/2,format=yuv420p'',
                       ''-r'', ''30'', ''-c:v'', ''libx264'', ''-preset'', ''ultrafast'',
                       ''-pix_fmt'', ''yuv420p'', ''clip_'' @ natToString k @ ''.mp4'']
                    else
                      [''-i'', inputName, ''-t'',
                       numberToString E (max 1 (duration (videoSegmentsOf segs ! k))), ''-vf'',
                       ''scale=1280:720:force_original_aspect_ratio=decrease,pad=1280:720:(ow-iw)/2:(oh-ih)/2,format=yuv420p'',
                       ''-r'', ''30'', ''-c:v'', ''libx264'', ''-preset'', ''ultrafast'',
                       ''-pix_fmt'', ''yuv420p'', ''-an'', ''clip_'' @ natToString k @ ''.mp4''])
                \<in> set (fst (renderTimeline E segs assets)))) \<and>
        (\<not> clipOk E k \<longrightarrow>
           ConsoleError (''[FFmpeg] Failed to process clip '' @ natToString k @ '':'')
             \<in> set (fst (renderTimeline E segs assets)))) \<and>
    ((\<exists>k<length (videoSegmentsOf segs). clipOk E k) \<and> laterCallsOk E segs \<longrightarrow>
        snd (renderTimeline E segs assets) = Inr (objectUrl E) \<and>
        (\<forall>c. encodedClips E segs = [c] \<longrightarrow>
           ReadFile c \<in> set (fst (renderTimeline E segs assets)) \<and>
           WriteFile ''video_only.mp4'' (ContentOf c) \<in> set (fst (renderTimeline E segs assets))) \<and>
        (2 \<le> length (encodedClips E segs) \<longrightarrow>
           WriteFile ''concat.txt''
               (Text (''file '' @ [CHR 0x27] @ hd (encodedClips E segs) @ [CHR 0x27] @
                 concat (map (\<lambda>c. [CHR 0x0A] @ ''file '' @ [CHR 0x27] @ c @ [CHR 0x27])
                   (tl (encodedClips E segs)))))
             \<in> set (fst (renderTimeline E segs assets)) \<and>
           Exec [''-f'', ''concat'', ''-safe'', ''0'', ''-i'', ''concat.txt'', ''-c'', ''copy'',
                 ''video_only.mp4'']
             \<in> set (fst (renderTimeline E segs assets))) \<and>
        (ReadFile ''video_only.mp4'' \<in> set (fst (renderTimeline E segs assets)) \<or>
         ReadFile ''final_output.mp4'' \<in> set (fst (renderTimeline E segs assets))) \<and>
        (audioSegmentsOf segs = [] \<longrightarrow>
           ReadFile ''video_only.mp4'' \<in> set (fst (renderTimeline E segs assets)))) \<and>
    (videoSegmentsOf segs \<noteq> [] \<and> (\<forall>k<length (videoSegmentsOf segs). \<not> clipOk E k) \<longrightarrow>
        snd (renderTimeline E segs assets)
          = Inl (Error ''All clips failed to encode. Check your media files.'') \<and>
        Error ''All clips failed to encode. Check your media files.''
          \<noteq> Error ''No video segments found on the timeline. Add clips to the V1 MAIN track first.'')"
proof -
  let ?vs = "videoSegmentsOf segs"
  let ?r = "renderTimeline E segs assets"
  let ?enc = "\<lambda>k inputName.
     (if assetType (?vs ! k) = Some IMAGE then
        [''-loop'', ''1'', ''-i'', inputName, ''-t'',
         numberToString E (max 1 (duration (?vs ! k))), ''-vf'',
         ''scale=1280:720:force_original_aspect_ratio=decrease,pad=1280:720:(ow-iw)/2:(oh-ih)/2,format=yuv420p'',
         ''-r'', ''30'', ''-c:v'', ''libx264'', ''-preset'', ''ultrafast'',
         ''-pix_fmt'', ''yuv420p'', ''clip_'' @ natToString k @ ''.mp4'']
      else
        [''-i'', inputName, ''-t'',
         numberToString E (max 1 (duration (?vs ! k))), ''-vf'',
         ''scale=1280:720:force_original_aspect_ratio=decrease,pad=1280:720:(ow-iw)/2:(oh-ih)/2,format=yuv420p'',
         ''-r'', ''30'', ''-c:v'', ''libx264'', ''-preset'', ''ultrafast'',
         ''-pix_fmt'', ''yuv420p'', ''-an'', ''clip_'' @ natToString k @ ''.mp4''])"
  have order: "sorted (map startFrame ?vs)" by (rule videoSegmentsOf_sorted)
  have each: "\<forall>k<length ?vs.
        Progress (0.05 + (real k / real (length ?vs)) * 0.55)
            (''Encoding clip '' @ natToString (k + 1) @ ''/'' @ natToString (length ?vs) @ '': '' @
               [CHR 0x22] @ label (?vs ! k) @ [CHR 0x22]) \<in> set (fst ?r) \<and>
        FetchFile (assetUrl (?vs ! k)) \<in> set (fst ?r) \<and>
        ((''clip_'' @ natToString k @ ''.mp4'') \<in> set (encodedClips E segs) \<longleftrightarrow> clipOk E k) \<and>
        (clipOk E k \<longrightarrow>
           (\<exists>inputName.
              WriteFile inputName (FetchedFrom (assetUrl (?vs ! k))) \<in> set (fst ?r) \<and>
              Exec (?enc k inputName) \<in> set (fst ?r))) \<and>
        (\<not> clipOk E k \<longrightarrow>
           ConsoleError (''[FFmpeg] Failed to process clip '' @ natToString k @ '':'')
             \<in> set (fst ?r))"
  proof (intro allI impI)
    fix k assume k: "k < length ?vs"
    then have ne: "?vs \<noteq> []" by auto
    note sub = run_after_load [OF assms ne, of assets]
    have f: "FetchFile (assetUrl (?vs ! k)) \<in> set (fst ?r)"
      using normalizeClips_fetches [OF k, of E assets "length ?vs" 0] sub by blast
    have p: "Progress (0.05 + (real k / real (length ?vs)) * 0.55)
            (''Encoding clip '' @ natToString (k + 1) @ ''/'' @ natToString (length ?vs) @ '': '' @
               [CHR 0x22] @ label (?vs ! k) @ [CHR 0x22]) \<in> set (fst ?r)"
      using normalizeClips_progress [OF k, of "length ?vs" 0 E assets] sub
      by (auto simp: stepProgress_def encodingLabel_def)
    have l: "\<not> clipOk E k \<longrightarrow>
        ConsoleError (''[FFmpeg] Failed to process clip '' @ natToString k @ '':'') \<in> set (fst ?r)"
      using normalizeClips_logs [OF k, of E 0 assets "length ?vs"] sub
      by (auto simp: failedClipLog_def)
    have c: "(''clip_'' @ natToString k @ ''.mp4'') \<in> set (encodedClips E segs) \<longleftrightarrow> clipOk E k"
      using encodedClips_skip [OF k, of E] by (simp add: clipName_def)
    have e: "clipOk E k \<longrightarrow>
           (\<exists>inputName.
              WriteFile inputName (FetchedFrom (assetUrl (?vs ! k))) \<in> set (fst ?r) \<and>
              Exec (?enc k inputName) \<in> set (fst ?r))"
    proof
      assume "clipOk E k"
      then have "clipOk E (0 + k)" by simp
      from normalizeClips_encodes [OF k this, of assets "length ?vs"]
      obtain inputName where
        w: "WriteFile inputName (FetchedFrom (assetUrl (?vs ! k)))
              \<in> set (fst (normalizeClips E assets (length ?vs) 0 ?vs))" and
        x: "Exec (encodeArgs E inputName (clipName (0 + k)) (?vs ! k))
              \<in> set (fst (normalizeClips E assets (length ?vs) 0 ?vs))"
        by blast
      have a: "encodeArgs E inputName (clipName (0 + k)) (?vs ! k) = ?enc k inputName"
        by (simp add: encodeArgs_def clipName_def scaleFilter_def)
      from w x sub have "WriteFile inputName (FetchedFrom (assetUrl (?vs ! k))) \<in> set (fst ?r) \<and>
              Exec (?enc k inputName) \<in> set (fst ?r)"
        unfolding a by blast
      then show "\<exists>inputName.
              WriteFile inputName (FetchedFrom (assetUrl (?vs ! k))) \<in> set (fst ?r) \<and>
              Exec (?enc k inputName) \<in> set (fst ?r)"
        by (intro exI [of _ inputName])
    qed
    from p f c e l show "Progress (0.05 + (real k / real (length ?vs)) * 0.55)
            (''Encoding clip '' @ natToString (k + 1) @ ''/'' @ natToString (length ?vs) @ '': '' @
               [CHR 0x22] @ label (?vs ! k) @ [CHR 0x22]) \<in> set (fst ?r) \<and>
        FetchFile (assetUrl (?vs ! k)) \<in> set (fst ?r) \<and>
        ((''clip_'' @ natToString k @ ''.mp4'') \<in> set (encodedClips E segs) \<longleftrightarrow> clipOk E k) \<and>
        (clipOk E k \<longrightarrow>
           (\<exists>inputName.
              WriteFile inputName (FetchedFrom (assetUrl (?vs ! k))) \<in> set (fst ?r) \<and>
              Exec (?enc k inputName) \<in> set (fst ?r))) \<and>
        (\<not> clipOk E k \<longrightarrow>
           ConsoleError (''[FFmpeg] Failed to process clip '' @ natToString k @ '':'')
             \<in> set (fst ?r))"
      by (intro conjI)
  qed
  have some: "(\<exists>k<length ?vs. clipOk E k) \<and> laterCallsOk E segs \<longrightarrow>
        snd ?r = Inr (objectUrl E) \<and>
        (\<forall>c. encodedClips E segs = [c] \<longrightarrow>
           ReadFile c \<in> set (fst ?r) \<and>
           WriteFile ''video_only.mp4'' (ContentOf c) \<in> set (fst ?r)) \<and>
        (2 \<le> length (encodedClips E segs) \<longrightarrow>
           WriteFile ''concat.txt''
               (Text (''file '' @ [CHR 0x27] @ hd (encodedClips E segs) @ [CHR 0x27] @
                 concat (map (\<lambda>c. [CHR 0x0A] @ ''file '' @ [CHR 0x27] @ c @ [CHR 0x27])
                   (tl (encodedClips E segs)))))
             \<in> set (fst ?r) \<and>
           Exec [''-f'', ''concat'', ''-safe'', ''0'', ''-i'', ''concat.txt'', ''-c'', ''copy'',
                 ''video_only.mp4''] \<in> set (fst ?r)) \<and>
        (ReadFile ''video_only.mp4'' \<in> set (fst ?r) \<or>
         ReadFile ''final_output.mp4'' \<in> set (fst ?r)) \<and>
        (audioSegmentsOf segs = [] \<longrightarrow> ReadFile ''video_only.mp4'' \<in> set (fst ?r))"
  proof (intro impI, elim conjE exE)
    fix k assume k: "k < length ?vs" and ok: "clipOk E k" and later: "laterCallsOk E segs"
    from k ok have ne: "encodedClips E segs \<noteq> []"
      using encodedClips_skip [OF k, of E] by auto
    have cc: "concatCallsOk E segs" and ro: "readOutputOk E"
      using later by (simp_all add: laterCallsOk_def)
    note past = run_past_concat [OF assms ne cc, of assets]
    note reads = run_reads_output [OF assms ne cc, of assets]
    have c2: "if length (encodedClips E segs) = 1 then readClipOk E \<and> writeVideoOnlyOk E
              else writeConcatOk E \<and> execConcatOk E"
      using cc by (simp add: concatCallsOk_def)
    note made = concatClips_ok [OF ne c2, unfolded concatList_lines [OF ne] concatArgs_def]
    show "snd ?r = Inr (objectUrl E) \<and>
        (\<forall>c. encodedClips E segs = [c] \<longrightarrow>
           ReadFile c \<in> set (fst ?r) \<and>
           WriteFile ''video_only.mp4'' (ContentOf c) \<in> set (fst ?r)) \<and>
        (2 \<le> length (encodedClips E segs) \<longrightarrow>
           WriteFile ''concat.txt''
               (Text (''file '' @ [CHR 0x27] @ hd (encodedClips E segs) @ [CHR 0x27] @
                 concat (map (\<lambda>c. [CHR 0x0A] @ ''file '' @ [CHR 0x27] @ c @ [CHR 0x27])
                   (tl (encodedClips E segs)))))
             \<in> set (fst ?r) \<and>
           Exec [''-f'', ''concat'', ''-safe'', ''0'', ''-i'', ''concat.txt'', ''-c'', ''copy'',
                 ''video_only.mp4''] \<in> set (fst ?r)) \<and>
        (ReadFile ''video_only.mp4'' \<in> set (fst ?r) \<or>
         ReadFile ''final_output.mp4'' \<in> set (fst ?r)) \<and>
        (audioSegmentsOf segs = [] \<longrightarrow> ReadFile ''video_only.mp4'' \<in> set (fst ?r))"
      using past(1) past(3) [OF ro] made reads by blast
  qed
  have none: "?vs \<noteq> [] \<and> (\<forall>k<length ?vs. \<not> clipOk E k) \<longrightarrow>
        snd ?r = Inl (Error ''All clips failed to encode. Check your media files.'') \<and>
        Error ''All clips failed to encode. Check your media files.''
          \<noteq> Error ''No video segments found on the timeline. Add clips to the V1 MAIN track first.''"
  proof (intro impI, elim conjE)
    assume ne: "?vs \<noteq> []" and all: "\<forall>k<length ?vs. \<not> clipOk E k"
    have "encodedClips E segs = []" using all by (simp add: encodedClips_def filter_empty_conv)
    from run_all_failed [OF assms ne this]
    show "snd ?r = Inl (Error ''All clips failed to encode. Check your media files.'') \<and>
        Error ''All clips failed to encode. Check your media files.''
          \<noteq> Error ''No video segments found on the timeline. Add clips to the V1 MAIN track first.''"
      by (simp add: allFailedMessage_def)
  qed
  from order each some none show ?thesis by (intro conjI)
qed

theorem partial_clip_failure_is_skipped_witness:
  "snd (renderTimeline secondFetchFails threeClips []) = Inr ''blob:out'' \<and>
   ConsoleError ''[FFmpeg] Failed to process clip 1:''
     \<in> set (fst (renderTimeline secondFetchFails threeClips [])) \<and>
   encodedClips secondFetchFails threeClips = [''clip_0.mp4'', ''clip_2.mp4''] \<and>
   WriteFile ''concat.txt''
       (Text (''file '' @ [CHR 0x27] @ ''clip_0.mp4'' @ [CHR 0x27, CHR 0x0A] @
              ''file '' @ [CHR 0x27] @ ''clip_2.mp4'' @ [CHR 0x27]))
     \<in> set (fst (renderTimeline secondFetchFails threeClips [])) \<and>
   Exec [''-f'', ''concat'', ''-safe'', ''0'', ''-i'', ''concat.txt'', ''-c'', ''copy'',
         ''video_only.mp4'']
     \<in> set (fst (renderTimeline secondFetchFails threeClips [])) \<and>
   ReadFile ''video_only.mp4'' \<in> set (fst (renderTimeline secondFetchFails threeClips [])) \<and>
   Exec [''-loop'', ''1'', ''-i'', ''input_0.png'', ''-t'', ''5'', ''-vf'',
         ''scale=1280:720:force_original_aspect_ratio=decrease,pad=1280:720:(ow-iw)/2:(oh-ih)/2,format=yuv420p'',
         ''-r'', ''30'', ''-c:v'', ''libx264'', ''-preset'', ''ultrafast'',
         ''-pix_fmt'', ''yuv420p'', ''clip_0.mp4'']
     \<in> set (fst (renderTimeline secondFetchFails threeClips [])) \<and>
   Exec [''-i'', ''input_2.mp4'', ''-t'', ''5'', ''-vf'',
         ''scale=1280:720:force_original_aspect_ratio=decrease,pad=1280:720:(ow-iw)/2:(oh-ih)/2,format=yuv420p'',
         ''-r'', ''30'', ''-c:v'', ''libx264'', ''-preset'', ''ultrafast'',
         ''-pix_fmt'', ''yuv420p'', ''-an'', ''clip_2.mp4'']
     \<in> set (fst (renderTimeline secondFetchFails threeClips []))"
proof -
  let ?t = "set (fst (renderTimeline secondFetchFails threeClips []))"
  have load: "engineLoads secondFetchFails" by code_simp
  have n: "length (videoSegmentsOf threeClips) = 3" by code_simp
  have ok0: "clipOk secondFetchFails 0" by code_simp
  have bad1: "\<not> clipOk secondFetchFails 1" by code_simp
  have later: "laterCallsOk secondFetchFails threeClips" by code_simp
  have clips: "encodedClips secondFetchFails threeClips = [''clip_0.mp4'', ''clip_2.mp4'']"
    by code_simp
  have two: "2 \<le> length (encodedClips secondFetchFails threeClips)" by (simp add: clips)
  have auds: "audioSegmentsOf threeClips = []" by code_simp
  have url: "objectUrl secondFetchFails = ''blob:out''" by code_simp
  note T = partial_clip_failure_is_skipped [OF load, of threeClips "[]"]
  have "1 < length (videoSegmentsOf threeClips)" by (simp add: n)
  with T bad1 have
    "ConsoleError (''[FFmpeg] Failed to process clip '' @ natToString 1 @ '':'') \<in> ?t"
    by blast
  then have logged: "ConsoleError ''[FFmpeg] Failed to process clip 1:'' \<in> ?t"
    by (simp add: natToString_small)
  have "\<exists>k<length (videoSegmentsOf threeClips). clipOk secondFetchFails k"
    using ok0 n by (intro exI [of _ 0]) simp
  with T later two auds have
    "snd (renderTimeline secondFetchFails threeClips []) = Inr (objectUrl secondFetchFails) \<and>
     WriteFile ''concat.txt''
         (Text (''file '' @ [CHR 0x27] @ hd (encodedClips secondFetchFails threeClips) @ [CHR 0x27] @
                concat (map (\<lambda>c. [CHR 0x0A] @ ''file '' @ [CHR 0x27] @ c @ [CHR 0x27])
                  (tl (encodedClips secondFetchFails threeClips))))) \<in> ?t \<and>
     Exec [''-f'', ''concat'', ''-safe'', ''0'', ''-i'', ''concat.txt'', ''-c'', ''copy'',
           ''video_only.mp4''] \<in> ?t \<and>
     ReadFile ''video_only.mp4'' \<in> ?t"
    by blast
  then have resolved:
    "snd (renderTimeline secondFetchFails threeClips []) = Inr ''blob:out'' \<and>
     WriteFile ''concat.txt''
       (Text (''file '' @ [CHR 0x27] @ ''clip_0.mp4'' @ [CHR 0x27, CHR 0x0A] @
              ''file '' @ [CHR 0x27] @ ''clip_2.mp4'' @ [CHR 0x27])) \<in> ?t \<and>
     Exec [''-f'', ''concat'', ''-safe'', ''0'', ''-i'', ''concat.txt'', ''-c'', ''copy'',
           ''video_only.mp4''] \<in> ?t \<and>
     ReadFile ''video_only.mp4'' \<in> ?t"
    by (simp add: clips url)
  have e0: "Exec [''-loop'', ''1'', ''-i'', ''input_0.png'', ''-t'', ''5'', ''-vf'',
         ''scale=1280:720:force_original_aspect_ratio=decrease,pad=1280:720:(ow-iw)/2:(oh-ih)/2,format=yuv420p'',
         ''-r'', ''30'', ''-c:v'', ''libx264'', ''-preset'', ''ultrafast'',
         ''-pix_fmt'', ''yuv420p'', ''clip_0.mp4''] \<in> ?t"
    by code_simp
  have e2: "Exec [''-i'', ''input_2.mp4'', ''-t'', ''5'', ''-vf'',
         ''scale=1280:720:force_original_aspect_ratio=decrease,pad=1280:720:(ow-iw)/2:(oh-ih)/2,format=yuv420p'',
         ''-r'', ''30'', ''-c:v'', ''libx264'', ''-preset'', ''ultrafast'',
         ''-pix_fmt'', ''yuv420p'', ''-an'', ''clip_2.mp4''] \<in> ?t"
    by code_simp
  from resolved logged clips e0 e2 show ?thesis by (intro conjI) simp_all
qed

section \<open>Render pipeline: the segments the export sees\<close>

lemma videoSegmentsOf_set:
  "set (videoSegmentsOf segs) = {s \<in> set segs. trackId s = VIDEO_MAIN \<and> truthy (assetUrl s)}"
  by (auto simp: videoSegmentsOf_def)

lemma audioSegmentsOf_set:
  "set (audioSegmentsOf segs) = {s \<in> set segs. trackId s = AUDIO_TRACK \<and> truthy (assetUrl s)}"
  by (auto simp: audioSegmentsOf_def)

lemma run_without_video:
  assumes "videoSegmentsOf segs = []"
  shows "fst (renderTimeline E segs assets) = fst (loadFFmpeg E)"
    and "\<forall>ev\<in>set (fst (renderTimeline E segs assets)). \<not> segmentWork ev"
    and "\<exists>e. snd (renderTimeline E segs assets) = Inl e"
    and "engineLoads E \<longrightarrow> snd (renderTimeline E segs assets) = Inl (Error noVideoMessage)"
  using assms by (auto simp: renderTimeline_def loadFFmpeg_def engineLoads_def Let_def)

text \<open>
  C6. If no segment of the input is on the main video track, the run rejects, and its trace
  is that of \<open>loadFFmpeg\<close> alone: no fetch and no write, exec, read or delete of the
  engine is attempted. With the engine loaded, the rejection is the error with the message
  \<open>No video segments found on the timeline. Add clips to the V1 MAIN track first.\<close>
  (when loading the engine fails, the run rejects with that failure).
\<close>

theorem no_video_segments_rejects_before_any_work:
  assumes "\<forall>s\<in>set segs. trackId s \<noteq> VIDEO_MAIN"
  shows "fst (renderTimeline E segs assets) = fst (loadFFmpeg E) \<and>
    (\<forall>ev\<in>set (fst (renderTimeline E segs assets)). \<not> segmentWork ev) \<and>
    (\<exists>e. snd (renderTimeline E segs assets) = Inl e) \<and>
    (engineLoads E \<longrightarrow>
       snd (renderTimeline E segs assets) =
         Inl (Error ''No video segments found on the timeline. Add clips to the V1 MAIN track first.''))"
proof -
  have "set (videoSegmentsOf segs) = {}" using assms by (auto simp: videoSegmentsOf_set)
  then have "videoSegmentsOf segs = []" by simp
  from run_without_video [OF this, of E assets] show ?thesis
    by (simp add: noVideoMessage_def)
qed

theorem no_video_segments_rejects_before_any_work_witness:
  "fst (renderTimeline happyWorld overlapPair []) = fst (loadFFmpeg happyWorld) \<and>
   snd (renderTimeline happyWorld overlapPair []) =
     Inl (Error ''No video segments found on the timeline. Add clips to the V1 MAIN track first.'')"
proof -
  have h: "\<forall>s\<in>set overlapPair. trackId s \<noteq> VIDEO_MAIN" by (simp add: overlapPair_def)
  have l: "engineLoads happyWorld" by (simp add: happyWorld_def engineLoads_def)
  from no_video_segments_rejects_before_any_work [OF h, of happyWorld "[]"] l
  show ?thesis by blast
qed

lemma filter_truthy_video:
  "videoSegmentsOf (filter (\<lambda>s. truthy (assetUrl s)) segs) = videoSegmentsOf segs"
  by (simp add: videoSegmentsOf_def conj_commute cong: conj_cong)

lemma filter_truthy_audio:
  "audioSegmentsOf (filter (\<lambda>s. truthy (assetUrl s)) segs) = audioSegmentsOf segs"
  by (simp add: audioSegmentsOf_def conj_commute cong: conj_cong)

lemma normalizeClips_fetch:
  "FetchFile u \<in> set (fst (normalizeClips E assets n i segs)) \<Longrightarrow> \<exists>s\<in>set segs. assetUrl s = u"
proof (induction segs arbitrary: i)
  case Nil
  then show ?case by simp
next
  case (Cons seg rest)
  then show ?case
    by (auto simp: split_beta normalizeClip_def Let_def split: if_splits)
qed

lemma loadAudios_fetch:
  "FetchFile u \<in> set (fst (loadAudios E assets i segs st)) \<Longrightarrow> \<exists>s\<in>set segs. assetUrl s = u"
proof (induction segs arbitrary: i st)
  case Nil
  then show ?case by simp
next
  case (Cons seg rest)
  then show ?case
    by (auto simp: split_beta loadAudio_def Let_def split: if_splits)
qed

lemma mixAudio_fetch:
  "FetchFile u \<in> set (fst (mixAudio E assets auds)) \<Longrightarrow> \<exists>s\<in>set auds. assetUrl s = u"
  by (auto simp: mixAudio_def Let_def split_beta split: if_splits dest: loadAudios_fetch)

lemma concatClips_fetch: "FetchFile u \<notin> set (fst (concatClips E clips))"
  by (auto simp: concatClips_def Let_def split: list.splits)

lemma package_fetch: "FetchFile u \<notin> set (fst (package E out))"
  by (auto simp: package_def)

lemma run_fetch:
  assumes "FetchFile u \<in> set (fst (renderTimeline E segs assets))"
  shows "(\<exists>s\<in>set (videoSegmentsOf segs). assetUrl s = u) \<or>
         (\<exists>s\<in>set (audioSegmentsOf segs). assetUrl s = u)"
proof -
  let ?vs = "videoSegmentsOf segs"
  let ?n = "normalizeClips E assets (length ?vs) 0 ?vs"
  from assms have "FetchFile u \<in> set (fst ?n) \<or>
      FetchFile u \<in> set (fst (mixAudio E assets (audioSegmentsOf segs)))"
    using concatClips_fetch [of u E "snd ?n"] package_fetch [of u E]
    by (auto simp: renderTimeline_def loadFFmpeg_def Let_def split_beta
        split: prod.splits sum.splits if_splits)
  then show ?thesis using normalizeClips_fetch mixAudio_fetch by blast
qed

text \<open>
  C9. A run on a store is the run on the store without the segments whose \<open>assetUrl\<close> is
  unset or empty: such segments change neither the trace nor the outcome. So if no main-track
  segment has an \<open>assetUrl\<close>, the run rejects before any work on a segment, with the error of
  the missing video segments once the engine is loaded, although main-track segments exist;
  and every fetch of a run is the fetch of the non-empty \<open>assetUrl\<close> of a segment.
\<close>

theorem segments_without_url_are_invisible:
  "renderTimeline E segs assets = renderTimeline E (filter (\<lambda>s. truthy (assetUrl s)) segs) assets \<and>
   ((\<forall>s\<in>set segs. trackId s = VIDEO_MAIN \<longrightarrow> \<not> truthy (assetUrl s)) \<longrightarrow>
      (\<forall>ev\<in>set (fst (renderTimeline E segs assets)). \<not> segmentWork ev) \<and>
      (\<exists>e. snd (renderTimeline E segs assets) = Inl e) \<and>
      (engineLoads E \<longrightarrow>
         snd (renderTimeline E segs assets) =
           Inl (Error ''No video segments found on the timeline. Add clips to the V1 MAIN track first.''))) \<and>
   (\<forall>u. FetchFile u \<in> set (fst (renderTimeline E segs assets)) \<longrightarrow>
      truthy u \<and> (\<exists>s\<in>set segs. assetUrl s = u))"
proof -
  have same: "renderTimeline E segs assets
      = renderTimeline E (filter (\<lambda>s. truthy (assetUrl s)) segs) assets"
    unfolding renderTimeline_def filter_truthy_video filter_truthy_audio by (rule refl)
  have none: "(\<forall>s\<in>set segs. trackId s = VIDEO_MAIN \<longrightarrow> \<not> truthy (assetUrl s)) \<longrightarrow>
      (\<forall>ev\<in>set (fst (renderTimeline E segs assets)). \<not> segmentWork ev) \<and>
      (\<exists>e. snd (renderTimeline E segs assets) = Inl e) \<and>
      (engineLoads E \<longrightarrow>
         snd (renderTimeline E segs assets) =
           Inl (Error ''No video segments found on the timeline. Add clips to the V1 MAIN track first.''))"
  proof
    assume "\<forall>s\<in>set segs. trackId s = VIDEO_MAIN \<longrightarrow> \<not> truthy (assetUrl s)"
    then have "set (videoSegmentsOf segs) = {}" by (auto simp: videoSegmentsOf_set)
    then have "videoSegmentsOf segs = []" by simp
    from run_without_video(2-4) [OF this, of E assets]
    show "(\<forall>ev\<in>set (fst (renderTimeline E segs assets)). \<not> segmentWork ev) \<and>
      (\<exists>e. snd (renderTimeline E segs assets) = Inl e) \<and>
      (engineLoads E \<longrightarrow>
         snd (renderTimeline E segs assets) =
           Inl (Error ''No video segments found on the timeline. Add clips to the V1 MAIN track first.''))"
      by (simp add: noVideoMessage_def)
  qed
  have fetched: "\<forall>u. FetchFile u \<in> set (fst (renderTimeline E segs assets)) \<longrightarrow>
      truthy u \<and> (\<exists>s\<in>set segs. assetUrl s = u)"
    using run_fetch [of _ E segs assets]
    by (auto simp: videoSegmentsOf_set audioSegmentsOf_set)
  from same none fetched show ?thesis by blast
qed

theorem segments_without_url_are_invisible_witness:
  "snd (renderTimeline happyWorld noUrlStore []) =
     Inl (Error ''No video segments found on the timeline. Add clips to the V1 MAIN track first.'')"
proof -
  have h: "\<forall>s\<in>set noUrlStore. trackId s = VIDEO_MAIN \<longrightarrow> \<not> truthy (assetUrl s)"
    by (simp add: noUrlStore_def truthy_def)
  have l: "engineLoads happyWorld" by (simp add: happyWorld_def engineLoads_def)
  from segments_without_url_are_invisible [of happyWorld noUrlStore "[]"] h l
  show ?thesis by blast
qed

section \<open>Render pipeline: the audio filters\<close>










end
